theory Spec2Isabelle
  imports Complex_Main
begin

section \<open>Python values and exceptions\<close>

text \<open>
  The module \<^verbatim>\<open>agentpy/output.py\<close> is embedded function by function. Exceptions are
  values of the type \<open>error\<close>; a function that can raise returns \<open>error + 'a\<close> with
  \<open>Inl\<close> for the exception. Console output (\<^verbatim>\<open>print\<close>) is not part of the model.
\<close>

datatype error =
    TypeError | AttributeError | KeyError | ValueError | AssertionError
  | FileExistsError | FileNotFoundError | NotADirectoryError | IsADirectoryError

subsection \<open>Strings\<close>

text \<open>
  Python strings are \<open>string\<close>s (character lists). The functions below are the
  \<^verbatim>\<open>str\<close> methods the module calls: \<^verbatim>\<open>sub in s\<close>, \<^verbatim>\<open>s.split(sep)\<close> for a one-character
  separator, \<^verbatim>\<open>s.replace(old, new)\<close> for a non-empty \<^verbatim>\<open>old\<close>, \<^verbatim>\<open>str(n)\<close> and \<^verbatim>\<open>int(s)\<close>.
\<close>

primrec startswith :: "string \<Rightarrow> string \<Rightarrow> bool" where
  "startswith s [] = True"
| "startswith s (p # ps) = (case s of [] \<Rightarrow> False | c # cs \<Rightarrow> c = p \<and> startswith cs ps)"

primrec contains :: "string \<Rightarrow> string \<Rightarrow> bool" where
  "contains [] sub = (sub = [])"
| "contains (c # cs) sub = (startswith (c # cs) sub \<or> contains cs sub)"

primrec split_on :: "char \<Rightarrow> string \<Rightarrow> string list" where
  "split_on sep [] = [[]]"
| "split_on sep (c # cs) =
     (if c = sep then [] # split_on sep cs
      else (case split_on sep cs of [] \<Rightarrow> [[c]] | w # ws \<Rightarrow> (c # w) # ws))"

function replace_str :: "string \<Rightarrow> string \<Rightarrow> string \<Rightarrow> string" where
  "replace_str old new [] = []"
| "replace_str old new (c # cs) =
     (if startswith (c # cs) old then new @ replace_str old new (drop (length old - 1) cs)
      else c # replace_str old new cs)"
  by pat_completeness auto
termination
  by (relation "measure (\<lambda>(old, new, s). length s)") auto

definition digit_char :: "nat \<Rightarrow> char" where
  "digit_char d = char_of (48 + d)"

fun str_nat :: "nat \<Rightarrow> string" where
  "str_nat n = (if n < 10 then [digit_char n] else str_nat (n div 10) @ [digit_char (n mod 10)])"

definition str_int :: "int \<Rightarrow> string" where
  "str_int i = (if i < 0 then CHR ''-'' # str_nat (nat (- i)) else str_nat (nat i))"

text \<open>
  A string holds characters with code points below 256. Among these, \<^verbatim>\<open>str.isspace\<close> holds
  of the blank, of the control characters 9 to 13 and 28 to 31, of the next-line
  character 133 and of the no-break space 160; the ASCII digits are the only decimal
  digits.
\<close>

definition is_space :: "char \<Rightarrow> bool" where
  "is_space c = (c \<in> set [CHR '' '', CHR 0x09, CHR 0x0A, CHR 0x0B, CHR 0x0C, CHR 0x0D,
                            CHR 0x1C, CHR 0x1D, CHR 0x1E, CHR 0x1F, CHR 0x85, CHR 0xA0])"

definition is_digit :: "char \<Rightarrow> bool" where
  "is_digit c = (48 \<le> (of_char c :: nat) \<and> (of_char c :: nat) \<le> 57)"

definition strip :: "string \<Rightarrow> string" where
  "strip s = rev (dropWhile is_space (rev (dropWhile is_space s)))"

definition digits_val :: "string \<Rightarrow> nat" where
  "digits_val ds = foldl (\<lambda>acc c. 10 * acc + (of_char c - 48)) 0 ds"

text \<open>
  \<^verbatim>\<open>int(s)\<close> on a string: surrounding white space is dropped, one sign is allowed, and
  the rest must be a non-empty run of decimal digits; anything else raises
  \<^verbatim>\<open>ValueError\<close>. (Digit-group underscores cannot occur here: the argument is always
  a piece of \<^verbatim>\<open>s.split('_')\<close>.)
\<close>

definition py_int :: "string \<Rightarrow> error + int" where
  "py_int s =
     (let t = strip s;
          (neg, ds) = (case t of
                         c # r \<Rightarrow> if c = CHR ''-'' then (True, r)
                                  else if c = CHR ''+'' then (False, r) else (False, t)
                       | [] \<Rightarrow> (False, t))
      in if ds \<noteq> [] \<and> list_all is_digit ds
         then Inr (if neg then - int (digits_val ds) else int (digits_val ds))
         else Inl ValueError)"

section \<open>Experiment ids\<close>

text \<open>
  \<^verbatim>\<open>_last_exp_id(name, path)\<close>, lines 30-39. The directory listing \<^verbatim>\<open>listdir(path)\<close>
  is the argument \<open>output_dirs\<close>. The list comprehension calls \<^verbatim>\<open>int\<close> on the last
  \<^verbatim>\<open>'_'\<close>-piece of every listed name that contains \<^verbatim>\<open>name\<close>, in order, and the first
  \<^verbatim>\<open>ValueError\<close> leaves the function.
\<close>

primrec ids_of :: "string list \<Rightarrow> error + int list" where
  "ids_of [] = Inr []"
| "ids_of (s # ss) =
     (case py_int (last (split_on CHR ''_'' s)) of
        Inl e \<Rightarrow> Inl e
      | Inr i \<Rightarrow> (case ids_of ss of Inl e \<Rightarrow> Inl e | Inr is \<Rightarrow> Inr (i # is)))"

definition last_exp_id :: "string \<Rightarrow> string list \<Rightarrow> error + int" where
  "last_exp_id name output_dirs =
     (let exp_dirs = filter (\<lambda>s. contains s name) output_dirs
      in if exp_dirs \<noteq> []
         then (case ids_of exp_dirs of Inl e \<Rightarrow> Inl e | Inr ids \<Rightarrow> Inr (Max (set ids)))
         else Inr 0)"

section \<open>Data model\<close>

text \<open>
  Python values as the module meets them. \<open>pyval\<close> are the values JSON can hold
  besides mappings (\<^verbatim>\<open>None\<close>, \<^verbatim>\<open>bool\<close>, \<^verbatim>\<open>int\<close>, \<^verbatim>\<open>float\<close>, \<^verbatim>\<open>str\<close>, \<^verbatim>\<open>list\<close>), the numpy
  scalars \<^verbatim>\<open>np.integer\<close> and \<^verbatim>\<open>np.floating\<close> that \<^verbatim>\<open>NpEncoder\<close> converts, and
  \<open>PObject n\<close>, some other object (number \<open>n\<close>) that JSON cannot encode. A float is
  carried as the rational number it denotes (finite floats only). Arrays and tuples are
  outside the value model, and a list does not hold mappings or tables.
\<close>

datatype pyval =
    PNone | PBool bool | PInt int | PFloat rat | PStr string
  | PList "pyval list" | PNpInt int | PNpFloat rat | PObject nat

text \<open>
  A table (\<^verbatim>\<open>pandas.DataFrame\<close>): the names of its index levels (\<open>None\<close> for an
  unnamed level; a default \<^verbatim>\<open>RangeIndex\<close> is one unnamed level), its column labels, and
  its rows, each the index tuple of the row and its cells in column order. An index of
  one level is a plain \<^verbatim>\<open>Index\<close>, one of several levels a \<^verbatim>\<open>MultiIndex\<close>.
\<close>

datatype cell = NaN | Cell pyval

record dataframe =
  index_names :: "string option list"
  columns :: "string list"
  rows :: "(cell list \<times> cell list) list"

text \<open>
  An entry of a \<^verbatim>\<open>DataDict\<close>: a plain value, a table, a plain \<^verbatim>\<open>dict\<close> (or \<^verbatim>\<open>AttrDict\<close>)
  or a nested \<^verbatim>\<open>DataDict\<close>. Mappings keep their items in insertion order and have
  string keys. \<^verbatim>\<open>isinstance(x, dict)\<close> holds of \<open>Dict\<close> and of \<open>DataDict\<close>
  (\<^verbatim>\<open>DataDict\<close> derives from \<^verbatim>\<open>AttrDict\<close>, a \<^verbatim>\<open>dict\<close>), \<^verbatim>\<open>isinstance(x, DataDict)\<close> of
  \<open>DataDict\<close> only. The \<^verbatim>\<open>DataDict\<close> a method is called on is the list of its items.
\<close>

datatype entry =
    Val pyval
  | Frame dataframe
  | Dict "(string \<times> entry) list"
  | DataDict "(string \<times> entry) list"

type_synonym store = "(string \<times> entry) list"

text \<open>\<^verbatim>\<open>d[k] = v\<close> on a mapping: an existing key keeps its place.\<close>

fun dict_set :: "('k \<times> 'a) list \<Rightarrow> 'k \<Rightarrow> 'a \<Rightarrow> ('k \<times> 'a) list" where
  "dict_set [] k v = [(k, v)]"
| "dict_set ((k', v') # d) k v = (if k' = k then (k, v) # d else (k', v') # dict_set d k v)"

text \<open>
  Modelled from the spec: \<^verbatim>\<open>agentpy.tools\<close> is not among the sources. \<^verbatim>\<open>AttrDict\<close> is
  the attribute-style dictionary (the class docstring: items "can be defined and
  accessed like attributes"), so \<^verbatim>\<open>self.name\<close> is \<^verbatim>\<open>self['name']\<close> and a missing name
  raises \<^verbatim>\<open>AttributeError\<close>; \<^verbatim>\<open>make_list\<close> wraps a single string into a list (the
  source comments: it "prevents conversion to pd.Series for single value"). A selector
  argument is therefore \<open>All\<close> (the string \<^verbatim>\<open>'all'\<close>) or the list \<^verbatim>\<open>make_list\<close> returns.
\<close>

definition getattr :: "store \<Rightarrow> string \<Rightarrow> error + entry" where
  "getattr self name = (case map_of self name of None \<Rightarrow> Inl AttributeError | Some e \<Rightarrow> Inr e)"

datatype selector = All | Names "string list"

section \<open>The table library\<close>

text \<open>
  The pandas operations the module calls, at the level of index names, column labels
  and rows.
\<close>

definition empty_frame :: dataframe where
  "empty_frame = \<lparr>index_names = [None], columns = [], rows = []\<rparr>"

definition shape :: "dataframe \<Rightarrow> nat \<times> nat" where
  "shape df = (length (rows df), length (columns df))"

text \<open>The cell of a row under a column label (the first column of that label).\<close>

definition cell_at :: "string list \<Rightarrow> cell list \<Rightarrow> string \<Rightarrow> cell" where
  "cell_at cols r k = (case map_of (zip cols r) k of None \<Rightarrow> NaN | Some c \<Rightarrow> c)"

text \<open>A fresh \<^verbatim>\<open>RangeIndex\<close>: the rows are numbered from 0.\<close>

definition range_rows :: "(cell list \<times> cell list) list \<Rightarrow> (cell list \<times> cell list) list" where
  "range_rows rs = map (\<lambda>(i, r). ([Cell (PInt (int i))], snd r)) (enumerate 0 rs)"

text \<open>\<^verbatim>\<open>df[k] = v\<close> for a scalar \<^verbatim>\<open>v\<close>: the column is overwritten, or appended.\<close>

definition set_col :: "dataframe \<Rightarrow> string \<Rightarrow> cell \<Rightarrow> dataframe" where
  "set_col df k v =
     (if k \<in> set (columns df)
      then df\<lparr>rows := map (\<lambda>(ix, r). (ix, map (\<lambda>(c, x). if c = k then v else x)
                                               (zip (columns df) r))) (rows df)\<rparr>
      else df\<lparr>columns := columns df @ [k], rows := map (\<lambda>(ix, r). (ix, r @ [v])) (rows df)\<rparr>)"

text \<open>
  \<^verbatim>\<open>df.reset_index()\<close>: the index levels become the leading columns and the index a
  \<^verbatim>\<open>RangeIndex\<close>. An unnamed level is called \<^verbatim>\<open>index\<close> (\<^verbatim>\<open>level_0\<close> when a column
  \<^verbatim>\<open>index\<close> exists) in a plain index and \<^verbatim>\<open>level_i\<close> in a \<^verbatim>\<open>MultiIndex\<close>. A level whose
  name is already a column raises \<^verbatim>\<open>ValueError\<close> ("cannot insert, already exists").
\<close>

definition level_labels :: "dataframe \<Rightarrow> string list" where
  "level_labels df =
     (case index_names df of
        [n] \<Rightarrow> [case n of Some s \<Rightarrow> s
                | None \<Rightarrow> if ''index'' \<in> set (columns df) then ''level_0'' else ''index'']
      | ns \<Rightarrow> map (\<lambda>(i, n). case n of Some s \<Rightarrow> s | None \<Rightarrow> ''level_'' @ str_nat i)
                (enumerate 0 ns))"

definition reset_index :: "dataframe \<Rightarrow> error + dataframe" where
  "reset_index df =
     (let labels = level_labels df
      in if distinct labels \<and> list_all (\<lambda>l. l \<notin> set (columns df)) labels
         then Inr \<lparr>index_names = [None], columns = labels @ columns df,
                   rows = range_rows (map (\<lambda>(ix, r). (ix, ix @ r)) (rows df))\<rparr>
         else Inl ValueError)"

text \<open>\<^verbatim>\<open>df.reset_index(drop=True)\<close>: the index is dropped.\<close>

definition reset_index_drop :: "dataframe \<Rightarrow> dataframe" where
  "reset_index_drop df = df\<lparr>index_names := [None], rows := range_rows (rows df)\<rparr>"

text \<open>
  \<^verbatim>\<open>df.set_index(keys)\<close>: the named columns become the index levels, in the order of
  \<^verbatim>\<open>keys\<close>, and leave the columns; the old index is dropped. A key that is no column
  (\<^verbatim>\<open>None\<close> included) raises \<^verbatim>\<open>KeyError\<close>, an empty key list \<^verbatim>\<open>ValueError\<close>.
\<close>

definition set_index :: "dataframe \<Rightarrow> string option list \<Rightarrow> error + dataframe" where
  "set_index df keys =
     (if keys = [] then Inl ValueError
      else (case those keys of
              None \<Rightarrow> Inl KeyError
            | Some ks \<Rightarrow>
                if list_all (\<lambda>k. k \<in> set (columns df)) ks
                then Inr \<lparr>index_names = keys,
                          columns = filter (\<lambda>c. c \<notin> set ks) (columns df),
                          rows = map (\<lambda>(ix, r). (map (cell_at (columns df) r) ks,
                                    map snd (filter (\<lambda>(c, x). c \<notin> set ks) (zip (columns df) r))))
                                  (rows df)\<rparr>
                else Inl KeyError))"

text \<open>\<^verbatim>\<open>df[names]\<close> for a list of labels: \<^verbatim>\<open>KeyError\<close> when one is no column.\<close>

definition select_columns :: "dataframe \<Rightarrow> string list \<Rightarrow> error + dataframe" where
  "select_columns df ks =
     (if list_all (\<lambda>k. k \<in> set (columns df)) ks
      then Inr (df\<lparr>columns := ks,
                   rows := map (\<lambda>(ix, r). (ix, map (cell_at (columns df) r) ks)) (rows df)\<rparr>)
      else Inl KeyError)"

text \<open>
  \<^verbatim>\<open>pd.concat\<close> along the rows. The columns of the result are the columns of the
  frames when all have the same, and else the union of the frames' columns in order
  of first appearance; a frame that has exactly these columns
  contributes its rows as they are, another one is aligned by label with \<^verbatim>\<open>NaN\<close> for a
  missing column. A level name survives when all frames agree on it. With a mapping
  (\<^verbatim>\<open>pd.concat(df_dict)\<close>) the keys become a new leading, unnamed index level, and
  frames whose indexes differ in their number of levels raise \<^verbatim>\<open>AssertionError\<close>
  ("Cannot concat indices that do not have the same number of levels"); an empty
  argument raises \<^verbatim>\<open>ValueError\<close>. The two calls with a list pass frames of equal
  numbers of levels (copies of one frame; two frames after \<^verbatim>\<open>reset_index\<close>).
\<close>

definition first_occurrences :: "string list \<Rightarrow> string list" where
  "first_occurrences xs = rev (remdups (rev xs))"

definition union_columns :: "dataframe list \<Rightarrow> string list" where
  "union_columns dfs =
     (case dfs of
        [] \<Rightarrow> []
      | d # ds \<Rightarrow> if list_all (\<lambda>e. columns e = columns d) ds then columns d
                  else first_occurrences (concat (map columns dfs)))"

definition align_rows :: "string list \<Rightarrow> dataframe \<Rightarrow> (cell list \<times> cell list) list" where
  "align_rows cols df =
     (if columns df = cols then rows df
      else map (\<lambda>(ix, r). (ix, map (cell_at (columns df) r) cols)) (rows df))"

text \<open>
  The dtype of a column is not stored: it is the one pandas infers from the cells, so
  that a column of integers only is an integer column, a column of floats and missing
  values only (or without any cell) a float column, and any other one an object
  column. When \<^verbatim>\<open>pd.concat\<close> stacks the pieces of a column and each piece is missing, an
  integer column or a float column, not all of them integer columns, the result is a
  float column: the integers become floats (the rounding of an integer beyond \<open>2^53\<close>
  is not modelled). \<open>cells_under d c\<close> are the cells of the frame \<open>d\<close> under the label
  \<open>c\<close>, \<open>promoted dfs c\<close> says that the column \<open>c\<close> of the stacked frames \<open>dfs\<close> is
  turned into floats, and \<open>stacked_rows dfs d\<close> are the rows that the frame \<open>d\<close>
  contributes.
\<close>

definition int_cell :: "cell \<Rightarrow> bool" where
  "int_cell c = (case c of Cell (PInt i) \<Rightarrow> True | Cell (PNpInt i) \<Rightarrow> True | _ \<Rightarrow> False)"

definition float_cell :: "cell \<Rightarrow> bool" where
  "float_cell c =
     (case c of NaN \<Rightarrow> True | Cell (PFloat r) \<Rightarrow> True | Cell (PNpFloat r) \<Rightarrow> True | _ \<Rightarrow> False)"

definition to_float :: "cell \<Rightarrow> cell" where
  "to_float c =
     (case c of
        Cell (PInt i) \<Rightarrow> Cell (PFloat (of_int i))
      | Cell (PNpInt i) \<Rightarrow> Cell (PFloat (of_int i))
      | _ \<Rightarrow> c)"

definition cells_under :: "dataframe \<Rightarrow> string \<Rightarrow> cell list" where
  "cells_under d c =
     concat (map (\<lambda>(ix, r). map snd (filter (\<lambda>(l, x). l = c) (zip (columns d) r))) (rows d))"

definition promoted :: "dataframe list \<Rightarrow> string \<Rightarrow> bool" where
  "promoted dfs c =
     (list_all (\<lambda>d. c \<notin> set (columns d) \<or> list_all int_cell (cells_under d c)
                       \<or> list_all float_cell (cells_under d c)) dfs
      \<and> list_ex (\<lambda>d. c \<notin> set (columns d) \<or> list_all float_cell (cells_under d c)) dfs)"

definition promote_row :: "string list \<Rightarrow> (string \<Rightarrow> bool) \<Rightarrow> cell list \<Rightarrow> cell list" where
  "promote_row cols P r =
     map (\<lambda>(i, x). if i < length cols \<and> P (cols ! i) then to_float x else x) (enumerate 0 r)"

definition stacked_rows :: "dataframe list \<Rightarrow> dataframe \<Rightarrow> (cell list \<times> cell list) list" where
  "stacked_rows dfs d =
     map (\<lambda>(ix, r). (ix, promote_row (union_columns dfs) (promoted dfs) r))
         (align_rows (union_columns dfs) d)"

definition unanimous_names :: "dataframe list \<Rightarrow> string option list" where
  "unanimous_names dfs =
     (case dfs of
        [] \<Rightarrow> []
      | d # ds \<Rightarrow> foldl (\<lambda>ns e. map (\<lambda>(a, b). if a = b then a else None) (zip ns (index_names e)))
                    (index_names d) ds)"

definition same_nlevels :: "dataframe list \<Rightarrow> bool" where
  "same_nlevels dfs =
     (case dfs of [] \<Rightarrow> True
      | d # ds \<Rightarrow> list_all (\<lambda>e. length (index_names e) = length (index_names d)) ds)"

definition concat_frames :: "dataframe list \<Rightarrow> error + dataframe" where
  "concat_frames dfs =
     (if dfs = [] then Inl ValueError
      else if \<not> same_nlevels dfs then Inl AssertionError
      else Inr \<lparr>index_names = unanimous_names dfs, columns = union_columns dfs,
                rows = concat (map (stacked_rows dfs) dfs)\<rparr>)"

definition concat_dict :: "(string \<times> dataframe) list \<Rightarrow> error + dataframe" where
  "concat_dict kds =
     (if kds = [] then Inl ValueError
      else if \<not> same_nlevels (map snd kds) then Inl AssertionError
      else Inr \<lparr>index_names = None # unanimous_names (map snd kds),
                columns = union_columns (map snd kds),
                rows = concat (map (\<lambda>(k, d). map (\<lambda>(ix, r). (Cell (PStr k) # ix, r))
                                               (stacked_rows (map snd kds) d)) kds)\<rparr>)"

text \<open>\<^verbatim>\<open>df.index.set_names(name, level=0)\<close>.\<close>

definition set_names0 :: "dataframe \<Rightarrow> string \<Rightarrow> dataframe" where
  "set_names0 df name = df\<lparr>index_names := Some name # tl (index_names df)\<rparr>"

text \<open>
  \<^verbatim>\<open>df.query("scenario in @scenarios")\<close>: the rows whose value in the index level
  \<^verbatim>\<open>scenario\<close> is one of the given strings.
\<close>

definition level_value :: "string option list \<Rightarrow> cell list \<Rightarrow> string \<Rightarrow> cell" where
  "level_value names ix name = (case map_of (zip names ix) (Some name) of None \<Rightarrow> NaN | Some c \<Rightarrow> c)"

definition cell_in :: "cell \<Rightarrow> string list \<Rightarrow> bool" where
  "cell_in c names = (case c of Cell (PStr s) \<Rightarrow> s \<in> set names | _ \<Rightarrow> False)"

definition query_scenarios :: "dataframe \<Rightarrow> string list \<Rightarrow> dataframe" where
  "query_scenarios df scs =
     df\<lparr>rows := filter (\<lambda>(ix, r). cell_in (level_value (index_names df) ix ''scenario'') scs)
                  (rows df)\<rparr>"

section \<open>Equality of result stores\<close>

text \<open>
  Python's \<^verbatim>\<open>==\<close> on plain values: numbers (\<^verbatim>\<open>bool\<close> included) compare by value across
  their types, lists element by element, other objects by identity.
\<close>

primrec numeric :: "pyval \<Rightarrow> rat option" where
  "numeric PNone = None"
| "numeric (PBool b) = Some (if b then 1 else 0)"
| "numeric (PInt i) = Some (of_int i)"
| "numeric (PFloat r) = Some r"
| "numeric (PStr s) = None"
| "numeric (PList xs) = None"
| "numeric (PNpInt i) = Some (of_int i)"
| "numeric (PNpFloat r) = Some r"
| "numeric (PObject n) = None"

fun val_eq :: "pyval \<Rightarrow> pyval \<Rightarrow> bool" and vals_eq :: "pyval list \<Rightarrow> pyval list \<Rightarrow> bool" where
  "val_eq a b =
     (case a of
        PNone \<Rightarrow> b = PNone
      | PStr s \<Rightarrow> b = PStr s
      | PObject n \<Rightarrow> b = PObject n
      | PList xs \<Rightarrow> (case b of PList ys \<Rightarrow> vals_eq xs ys | _ \<Rightarrow> False)
      | _ \<Rightarrow> (case numeric b of None \<Rightarrow> False | Some y \<Rightarrow> numeric a = Some y))"
| "vals_eq [] ys = (ys = [])"
| "vals_eq (x # xs) ys = (case ys of [] \<Rightarrow> False | y # ys' \<Rightarrow> val_eq x y \<and> vals_eq xs ys')"

text \<open>
  \<^verbatim>\<open>DataFrame.equals\<close>: the same column labels, index values and cells (\<^verbatim>\<open>NaN\<close> equal
  to \<^verbatim>\<open>NaN\<close>); the names of the index levels are not compared.
\<close>

definition frame_equals :: "dataframe \<Rightarrow> entry \<Rightarrow> bool" where
  "frame_equals df other =
     (case other of
        Frame df' \<Rightarrow> columns df = columns df' \<and> rows df = rows df'
                     \<and> length (index_names df) = length (index_names df')
      | _ \<Rightarrow> False)"

text \<open>
  \<^verbatim>\<open>DataDict.__eq__\<close>, lines 98-110, is \<open>DataDict_eq\<close>; \<open>eq_loop\<close> is its loop over
  \<^verbatim>\<open>self.items()\<close>. \<open>entry_eq x y\<close> is the truth value of \<^verbatim>\<open>x == y\<close> for an \<open>x\<close> that is
  no table: a nested \<^verbatim>\<open>DataDict\<close> compares by \<^verbatim>\<open>DataDict.__eq__\<close> (also from the right
  of a plain dict, since it is a subclass that overrides \<^verbatim>\<open>__eq__\<close>), plain dicts by
  \<^verbatim>\<open>dict.__eq__\<close> (\<open>dict_eq\<close>: the same number of items, and every item of the left
  one equal in the right one). Comparing with a table gives a table of booleans, whose
  truth value raises \<^verbatim>\<open>ValueError\<close>; two tables inside plain dicts are taken to be
  distinct objects.
\<close>

fun entry_eq :: "entry \<Rightarrow> entry \<Rightarrow> error + bool"
  and dict_eq :: "(string \<times> entry) list \<Rightarrow> (string \<times> entry) list \<Rightarrow> error + bool"
  and eq_loop :: "(string \<times> entry) list \<Rightarrow> (string \<times> entry) list \<Rightarrow> error + bool" where
  "entry_eq (Val a) y =
     (case y of Val b \<Rightarrow> Inr (val_eq a b) | Frame t \<Rightarrow> Inl ValueError | _ \<Rightarrow> Inr False)"
| "entry_eq (Frame t) y = Inl ValueError"
| "entry_eq (Dict a) y =
     (case y of
        Dict b \<Rightarrow> if length a = length b then dict_eq a b else Inr False
      | Frame t \<Rightarrow> Inl ValueError
      | _ \<Rightarrow> Inr False)"
| "entry_eq (DataDict a) y = (case y of DataDict b \<Rightarrow> eq_loop a b | _ \<Rightarrow> Inr False)"
| "dict_eq [] b = Inr True"
| "dict_eq ((k, v) # a) b =
     (case map_of b k of
        None \<Rightarrow> Inr False
      | Some w \<Rightarrow> (case entry_eq v w of
                    Inl e \<Rightarrow> Inl e
                  | Inr eq \<Rightarrow> if eq then dict_eq a b else Inr False))"
| "eq_loop [] other = Inr True"
| "eq_loop ((key, item) # rest) other =
     (case map_of other key of
        None \<Rightarrow> Inr False
      | Some y \<Rightarrow>
          (case item of
             Frame df \<Rightarrow> if \<not> frame_equals df y then Inr False else eq_loop rest other
           | _ \<Rightarrow> (case entry_eq item y of
                     Inl e \<Rightarrow> Inl e
                   | Inr eq \<Rightarrow> if \<not> eq then Inr False else eq_loop rest other)))"

definition DataDict_eq :: "store \<Rightarrow> entry \<Rightarrow> error + bool" where
  "DataDict_eq self other = (case other of DataDict b \<Rightarrow> eq_loop self b | _ \<Rightarrow> Inr False)"

definition DataDict_ne :: "store \<Rightarrow> entry \<Rightarrow> error + bool" where
  "DataDict_ne self other = (case DataDict_eq self other of Inl e \<Rightarrow> Inl e | Inr b \<Rightarrow> Inr (\<not> b))"

section \<open>Combining variables\<close>

text \<open>
  Tables are mutable objects, and \<^verbatim>\<open>arrange\<close> passes them on by reference. A local
  variable that holds a table is therefore an \<open>obj\<close>: a table made by the call itself
  (\<open>Fresh\<close>), or the object stored in the \<^verbatim>\<open>DataDict\<close> under a key (\<open>Top\<close>) or under
  a key of a nested \<^verbatim>\<open>DataDict\<close> (\<open>Nested\<close>). A function that can assign into a
  stored table returns the \<^verbatim>\<open>DataDict\<close> as it is afterwards. A variable of type
  \<open>obj option\<close> is \<open>None\<close> exactly when the Python variable is \<^verbatim>\<open>None\<close>. No table is
  stored under two keys. A raised exception carries no state.
\<close>

datatype obj = Fresh dataframe | Top string | Nested string string

definition deref :: "store \<Rightarrow> obj \<Rightarrow> entry option" where
  "deref self ob =
     (case ob of
        Fresh df \<Rightarrow> Some (Frame df)
      | Top k \<Rightarrow> map_of self k
      | Nested k j \<Rightarrow> (case map_of self k of Some (DataDict d) \<Rightarrow> map_of d j | _ \<Rightarrow> None))"

text \<open>A table attribute or method on an object that is no table: \<^verbatim>\<open>AttributeError\<close>.\<close>

definition frame_of :: "store \<Rightarrow> obj \<Rightarrow> error + dataframe" where
  "frame_of self ob = (case deref self ob of Some (Frame df) \<Rightarrow> Inr df | _ \<Rightarrow> Inl AttributeError)"

text \<open>
  The log, \<^verbatim>\<open>self.log\<close>, is the entry under \<^verbatim>\<open>log\<close> (\<^verbatim>\<open>AttributeError\<close> without one).
  \<open>log_has self k\<close> is the test \<^verbatim>\<open>k in self.log\<close>: for a key of a mapping, a column label
  of a table, a substring of a string, an element of a list; another value is not
  iterable (\<^verbatim>\<open>TypeError\<close>). \<open>log_item self k\<close> is \<^verbatim>\<open>self.log[k]\<close>: the item of a mapping,
  the column of a table (as a table of that one column), \<^verbatim>\<open>KeyError\<close> without such a
  key or column, and \<^verbatim>\<open>TypeError\<close> on any other value.
\<close>

definition log_has :: "store \<Rightarrow> string \<Rightarrow> error + bool" where
  "log_has self k =
     (case getattr self ''log'' of
        Inl e \<Rightarrow> Inl e
      | Inr (Dict d) \<Rightarrow> Inr (map_of d k \<noteq> None)
      | Inr (DataDict d) \<Rightarrow> Inr (map_of d k \<noteq> None)
      | Inr (Frame df) \<Rightarrow> Inr (k \<in> set (columns df))
      | Inr (Val (PStr s)) \<Rightarrow> Inr (contains s k)
      | Inr (Val (PList xs)) \<Rightarrow> Inr (PStr k \<in> set xs)
      | Inr (Val v) \<Rightarrow> Inl TypeError)"

definition column_frame :: "dataframe \<Rightarrow> string \<Rightarrow> dataframe" where
  "column_frame df k =
     df\<lparr>columns := [k], rows := map (\<lambda>(ix, r). (ix, [cell_at (columns df) r k])) (rows df)\<rparr>"

definition log_item :: "store \<Rightarrow> string \<Rightarrow> error + entry" where
  "log_item self k =
     (case getattr self ''log'' of
        Inl e \<Rightarrow> Inl e
      | Inr (Dict d) \<Rightarrow> (case map_of d k of None \<Rightarrow> Inl KeyError | Some v \<Rightarrow> Inr v)
      | Inr (DataDict d) \<Rightarrow> (case map_of d k of None \<Rightarrow> Inl KeyError | Some v \<Rightarrow> Inr v)
      | Inr (Frame df) \<Rightarrow>
          if k \<in> set (columns df) then Inr (Frame (column_frame df k)) else Inl KeyError
      | Inr (Val v) \<Rightarrow> Inl TypeError)"

text \<open>
  Lines 134-136: \<^verbatim>\<open>any(x in v.columns for x in make_list(var_keys))\<close> for each item in
  turn. With no key to look for, \<^verbatim>\<open>v.columns\<close> is never read.
\<close>

definition has_any_column :: "entry \<Rightarrow> string list \<Rightarrow> error + bool" where
  "has_any_column v ks =
     (if ks = [] then Inr False
      else (case v of
              Frame df \<Rightarrow> Inr (list_ex (\<lambda>x. x \<in> set (columns df)) ks)
            | _ \<Rightarrow> Inl AttributeError))"

primrec filter_var_keys :: "(string \<times> entry) list \<Rightarrow> string list \<Rightarrow> error + (string \<times> entry) list" where
  "filter_var_keys [] ks = Inr []"
| "filter_var_keys (kv # d) ks =
     (case has_any_column (snd kv) ks of
        Inl e \<Rightarrow> Inl e
      | Inr keep \<Rightarrow> (case filter_var_keys d ks of
                      Inl e \<Rightarrow> Inl e
                    | Inr d' \<Rightarrow> Inr (if keep then kv # d' else d')))"

text \<open>\<^verbatim>\<open>xs.insert(-1, x)\<close>: before the last element (into an empty list: the only one).\<close>

definition insert_before_last :: "'a list \<Rightarrow> 'a \<Rightarrow> 'a list" where
  "insert_before_last xs x = (if xs = [] then [x] else butlast xs @ [x, last xs])"

text \<open>\<^verbatim>\<open>self['variables'][m] = e\<close>, the write that an assignment into the stored table is.\<close>

definition set_variable :: "store \<Rightarrow> string \<Rightarrow> entry \<Rightarrow> store" where
  "set_variable self m e =
     (case map_of self ''variables'' of
        Some (DataDict vs) \<Rightarrow> dict_set self ''variables'' (DataDict (dict_set vs m e))
      | Some (Dict vs) \<Rightarrow> dict_set self ''variables'' (Dict (dict_set vs m e))
      | _ \<Rightarrow> self)"

text \<open>
  Lines 143-152, given \<^verbatim>\<open>model_type = self.log['model_type']\<close>. \<^verbatim>\<open>df_dict\<close> is a new
  mapping (\<^verbatim>\<open>dict(vs)\<close> or a comprehension) of the same table objects, so
  \<^verbatim>\<open>df = df_dict[model_type]\<close> is the table stored in \<^verbatim>\<open>self['variables']\<close>, and
  \<^verbatim>\<open>df['obj_id'] = 0\<close> assigns into it; \<^verbatim>\<open>reset_index\<close> then makes a new table, which
  only \<^verbatim>\<open>df_dict\<close> receives. An entry that is no table fails at the item assignment
  (\<^verbatim>\<open>TypeError\<close>) or at \<^verbatim>\<open>df.index\<close> (\<^verbatim>\<open>AttributeError\<close>, for a mapping). A model type
  that is no string equals no key; a table as model type has no truth value in the
  membership test.
\<close>

definition add_obj_id :: "store \<Rightarrow> (string \<times> entry) list \<Rightarrow> entry \<Rightarrow> error + (string \<times> entry) list \<times> store" where
  "add_obj_id self df_dict model_type =
     (case model_type of
        Val (PStr m) \<Rightarrow>
          (case map_of df_dict m of
             None \<Rightarrow> Inr (df_dict, self)
           | Some (Frame df) \<Rightarrow>
               (let df1 = set_col df ''obj_id'' (Cell (PInt 0));
                    self' = set_variable self m (Frame df1);
                    indexes = insert_before_last (index_names df1) (Some ''obj_id'')
                in case reset_index df1 of
                     Inl e \<Rightarrow> Inl e
                   | Inr df2 \<Rightarrow> (case set_index df2 indexes of
                                  Inl e \<Rightarrow> Inl e
                                | Inr df3 \<Rightarrow> Inr (dict_set df_dict m (Frame df3), self')))
           | Some (Val v) \<Rightarrow> Inl TypeError
           | Some _ \<Rightarrow> Inl AttributeError)
      | Frame t \<Rightarrow> if df_dict = [] then Inr (df_dict, self) else Inl ValueError
      | _ \<Rightarrow> Inr (df_dict, self))"

text \<open>
  \<^verbatim>\<open>pd.concat\<close> drops the values that are \<^verbatim>\<open>None\<close>, with their keys, and raises
  \<^verbatim>\<open>TypeError\<close> on a value that is no table.
\<close>

primrec frames_of :: "(string \<times> entry) list \<Rightarrow> error + (string \<times> dataframe) list" where
  "frames_of [] = Inr []"
| "frames_of (kv # d) =
     (case snd kv of
        Frame df \<Rightarrow> (case frames_of d of Inl e \<Rightarrow> Inl e | Inr fs \<Rightarrow> Inr ((fst kv, df) # fs))
      | Val PNone \<Rightarrow> frames_of d
      | _ \<Rightarrow> Inl TypeError)"

text \<open>Lines 133-167 of \<^verbatim>\<open>_combine_vars\<close>, for the mapping \<^verbatim>\<open>df_dict = dict(vs)\<close>.\<close>

definition combine_dict :: "store \<Rightarrow> (string \<times> entry) list \<Rightarrow> selector \<Rightarrow> selector \<Rightarrow> error + obj option \<times> store" where
  "combine_dict self vs obj_types var_keys =
     (case (case var_keys of All \<Rightarrow> Inr vs | Names ks \<Rightarrow> filter_var_keys vs ks) of
        Inl e \<Rightarrow> Inl e
      | Inr d1 \<Rightarrow>
          (let d2 = (case obj_types of All \<Rightarrow> d1 | Names ts \<Rightarrow> filter (\<lambda>kv. fst kv \<in> set ts) d1)
           in case log_item self ''model_type'' of
                Inl e \<Rightarrow> Inl e
              | Inr model_type \<Rightarrow>
                  (case add_obj_id self d2 model_type of
                     Inl e \<Rightarrow> Inl e
                   | Inr (d3, self') \<Rightarrow>
                       if d3 = [] then Inr (None, self')
                       else (case frames_of d3 of
                               Inl e \<Rightarrow> Inl e
                             | Inr fs \<Rightarrow>
                                 (case concat_dict fs of
                                    Inl e \<Rightarrow> Inl e
                                  | Inr df \<Rightarrow>
                                      (case var_keys of
                                         All \<Rightarrow> Inr (Some (Fresh (set_names0 df ''obj_type'')), self')
                                       | Names ks \<Rightarrow>
                                           (case select_columns (set_names0 df ''obj_type'') ks of
                                              Inl e \<Rightarrow> Inl e
                                            | Inr df' \<Rightarrow> Inr (Some (Fresh df'), self'))))))))"

text \<open>
  \<^verbatim>\<open>_combine_vars\<close>, lines 115-167. The first two branches return the stored object
  itself: \<^verbatim>\<open>vs\<close>, or the only value of \<^verbatim>\<open>vs\<close>, whatever it is.
\<close>

definition combine_vars :: "store \<Rightarrow> selector \<Rightarrow> selector \<Rightarrow> error + obj option \<times> store" where
  "combine_vars self obj_types var_keys =
     (case map_of self ''variables'' of
        None \<Rightarrow> Inr (None, self)
      | Some (Frame df) \<Rightarrow> Inr (Some (Top ''variables''), self)
      | Some (DataDict vs) \<Rightarrow>
          (case vs of
             [(k, e)] \<Rightarrow> Inr (if e = Val PNone then None else Some (Nested ''variables'' k), self)
           | _ \<Rightarrow> combine_dict self vs obj_types var_keys)
      | Some (Dict vs) \<Rightarrow> combine_dict self vs obj_types var_keys
      | Some (Val v) \<Rightarrow> Inl TypeError)"

section \<open>Combining parameters\<close>

text \<open>
  \<^verbatim>\<open>dfp[k] = v\<close> for a parameter value. A list is taken as the cells of the column: its
  length must be the number of rows, except that a table without rows takes its rows
  (under a fresh \<^verbatim>\<open>RangeIndex\<close>) from a non-empty list. Any other plain value fills the
  column.

  A value with labels of its own is aligned with the index of the table
  (\<open>assign_series\<close>, for the names of the index levels of the value and its labelled
  cells): a table without rows takes index and rows from a non-empty value; else the
  cells are taken as they are when the labels are those of the table in the same
  order, and are else looked up label by label, with \<^verbatim>\<open>NaN\<close> for a label that the value
  lacks (integers then become floats) and \<^verbatim>\<open>ValueError\<close> when the value has a label
  twice. Labels are compared as tuples of cells. A mapping is such a value, labelled by
  its keys (\<^verbatim>\<open>pd.Series(v)\<close>, as pandas 1.3 and later do); a table is one when it has
  exactly one column, and raises \<^verbatim>\<open>ValueError\<close> otherwise.
\<close>

definition set_col_cells :: "dataframe \<Rightarrow> string \<Rightarrow> cell list \<Rightarrow> dataframe" where
  "set_col_cells df k cs =
     (if k \<in> set (columns df)
      then df\<lparr>rows := map (\<lambda>((ix, r), v). (ix, map (\<lambda>(c, x). if c = k then v else x)
                                                    (zip (columns df) r))) (zip (rows df) cs)\<rparr>
      else df\<lparr>columns := columns df @ [k],
              rows := map (\<lambda>((ix, r), v). (ix, r @ [v])) (zip (rows df) cs)\<rparr>)"

definition aligned_cells :: "cell list list \<Rightarrow> (cell list \<times> cell) list \<Rightarrow> cell list" where
  "aligned_cells labels ser =
     (let cs = map (\<lambda>ix. case map_of ser ix of None \<Rightarrow> NaN | Some v \<Rightarrow> v) labels
      in if list_all int_cell (map snd ser) \<and> list_ex (\<lambda>ix. map_of ser ix = None) labels
         then map to_float cs else cs)"

definition assign_series ::
  "dataframe \<Rightarrow> string \<Rightarrow> string option list \<Rightarrow> (cell list \<times> cell) list \<Rightarrow> error + dataframe" where
  "assign_series df k names ser =
     (if rows df = [] \<and> ser \<noteq> []
      then Inr (set_col_cells
                  (df\<lparr>index_names := names,
                      rows := map (\<lambda>(ix, v). (ix, replicate (length (columns df)) NaN)) ser\<rparr>)
                  k (map snd ser))
      else if map fst ser = map fst (rows df) then Inr (set_col_cells df k (map snd ser))
      else if \<not> distinct (map fst ser) then Inl ValueError
      else Inr (set_col_cells df k (aligned_cells (map fst (rows df)) ser)))"

text \<open>
  A table or a mapping in a cell is kept as an opaque object.
\<close>

definition cell_of :: "entry \<Rightarrow> cell" where
  "cell_of e = (case e of Val v \<Rightarrow> Cell v | _ \<Rightarrow> Cell (PObject 0))"

definition assign_param :: "dataframe \<Rightarrow> string \<Rightarrow> entry \<Rightarrow> error + dataframe" where
  "assign_param df k v =
     (case v of
        Val (PList xs) \<Rightarrow>
          if rows df = [] \<and> xs \<noteq> []
          then Inr (set_col_cells
                      (df\<lparr>index_names := [None],
                          rows := range_rows (replicate (length xs)
                                     ([], replicate (length (columns df)) NaN))\<rparr>)
                      k (map Cell xs))
          else if length xs = length (rows df) then Inr (set_col_cells df k (map Cell xs))
          else Inl ValueError
      | Val x \<Rightarrow> Inr (set_col df k (Cell x))
      | Dict d \<Rightarrow>
          assign_series df k [None] (map (\<lambda>kv. ([Cell (PStr (fst kv))], cell_of (snd kv))) d)
      | DataDict d \<Rightarrow>
          assign_series df k [None] (map (\<lambda>kv. ([Cell (PStr (fst kv))], cell_of (snd kv))) d)
      | Frame f \<Rightarrow>
          if length (columns f) = 1
          then assign_series df k (index_names f)
                 (map (\<lambda>(ix, r). (ix, case r of [] \<Rightarrow> NaN | x # xs \<Rightarrow> x)) (rows f))
          else Inl ValueError)"

primrec assign_params :: "dataframe \<Rightarrow> (string \<times> entry) list \<Rightarrow> error + dataframe" where
  "assign_params df [] = Inr df"
| "assign_params df (kv # d) =
     (case assign_param df (fst kv) (snd kv) of
        Inl e \<Rightarrow> Inl e
      | Inr df' \<Rightarrow> assign_params df' d)"

text \<open>\<^verbatim>\<open>pd.DataFrame({k: [v] for k, v in d.items()})\<close>: one row, one cell per item.\<close>

definition one_row_frame :: "(string \<times> entry) list \<Rightarrow> dataframe" where
  "one_row_frame d =
     (if d = [] then empty_frame
      else \<lparr>index_names = [None], columns = map fst d,
            rows = [([Cell (PInt 0)], map (\<lambda>kv. cell_of (snd kv)) d)]\<rparr>)"

text \<open>
  Lines 175-194 of \<^verbatim>\<open>_combine_pars\<close>: the value of \<^verbatim>\<open>dfp\<close> for the entry
  \<^verbatim>\<open>self.parameters\<close>. In the first case \<^verbatim>\<open>dfp\<close> is the copy of \<^verbatim>\<open>varied\<close>: a table, or
  the copy of a mapping or of a list, which have a \<^verbatim>\<open>copy\<close> method too; a mapping takes
  the assignments of line 183 and a list raises \<^verbatim>\<open>TypeError\<close> on the first one, and both
  fail at \<^verbatim>\<open>dfp.shape\<close> (\<^verbatim>\<open>AttributeError\<close>). Any other \<^verbatim>\<open>varied\<close> entry is taken to have
  no \<^verbatim>\<open>copy\<close> method (a numpy number, which has one, is not followed). The items of
  \<^verbatim>\<open>fixed\<close> are those of a mapping, or the columns of a table, each with its labels;
  another value has no \<^verbatim>\<open>items\<close> method.
\<close>

datatype copied = TableCopy dataframe | MappingCopy | ListCopy

definition fixed_items :: "entry \<Rightarrow> error + (string \<times> entry) list" where
  "fixed_items f =
     (case f of
        Dict d \<Rightarrow> Inr d
      | DataDict d \<Rightarrow> Inr d
      | Frame t \<Rightarrow>
          Inr (map (\<lambda>i. (columns t ! i,
                         Frame (t\<lparr>columns := [columns t ! i],
                                  rows := map (\<lambda>(ix, r). (ix, [if i < length r then r ! i else NaN]))
                                              (rows t)\<rparr>)))
                   [0..<length (columns t)])
      | Val v \<Rightarrow> Inl AttributeError)"

definition select_pars :: "entry \<Rightarrow> bool \<Rightarrow> bool \<Rightarrow> error + dataframe option" where
  "select_pars parameters varied fixed =
     (case parameters of
        DataDict d \<Rightarrow>
          (case (if varied
                 then (case getattr d ''varied'' of
                         Inl e \<Rightarrow> Inl e
                       | Inr (Frame df) \<Rightarrow> Inr (TableCopy df)
                       | Inr (Dict v) \<Rightarrow> Inr MappingCopy
                       | Inr (DataDict v) \<Rightarrow> Inr MappingCopy
                       | Inr (Val (PList xs)) \<Rightarrow> Inr ListCopy
                       | Inr (Val v) \<Rightarrow> Inl AttributeError)
                 else Inr (TableCopy empty_frame)) of
             Inl e \<Rightarrow> Inl e
           | Inr dfp \<Rightarrow>
               (case (if fixed
                      then (case getattr d ''fixed'' of
                              Inl e \<Rightarrow> Inl e
                            | Inr f \<Rightarrow> fixed_items f)
                      else Inr []) of
                  Inl e \<Rightarrow> Inl e
                | Inr items \<Rightarrow>
                    (case dfp of
                       TableCopy df \<Rightarrow> map_sum id Some (assign_params df items)
                     | MappingCopy \<Rightarrow> Inl AttributeError
                     | ListCopy \<Rightarrow> if items = [] then Inl AttributeError else Inl TypeError)))
      | Dict d \<Rightarrow> if fixed then Inr (Some (one_row_frame d)) else Inr None
      | Frame df \<Rightarrow> if varied then Inr (Some df) else Inr None
      | Val v \<Rightarrow> Inl TypeError)"

text \<open>
  \<^verbatim>\<open>'iterations' in self.log and self.log['iterations'] > 1\<close>: the number of iterations
  when the test holds. A float above 1 passes the test and fails in \<^verbatim>\<open>[dfp] * n\<close>. The
  comparison of a table with 1 is made cell by cell (\<^verbatim>\<open>TypeError\<close> on a cell that is no
  number), and its result has no truth value (\<^verbatim>\<open>ValueError\<close>).
\<close>

definition iterations :: "store \<Rightarrow> error + int option" where
  "iterations self =
     (case log_has self ''iterations'' of
        Inl e \<Rightarrow> Inl e
      | Inr False \<Rightarrow> Inr None
      | Inr True \<Rightarrow>
          (case log_item self ''iterations'' of
             Inl e \<Rightarrow> Inl e
           | Inr (Val (PInt n)) \<Rightarrow> Inr (if n > 1 then Some n else None)
           | Inr (Val (PNpInt n)) \<Rightarrow> Inr (if n > 1 then Some n else None)
           | Inr (Val (PBool b)) \<Rightarrow> Inr None
           | Inr (Val (PFloat r)) \<Rightarrow> if r > 1 then Inl TypeError else Inr None
           | Inr (Val (PNpFloat r)) \<Rightarrow> if r > 1 then Inl TypeError else Inr None
           | Inr (Frame t) \<Rightarrow>
               if list_all (\<lambda>row. list_all (\<lambda>c. case c of NaN \<Rightarrow> True
                                                     | Cell v \<Rightarrow> numeric v \<noteq> None) (snd row))
                           (rows t)
               then Inl ValueError else Inl TypeError
           | Inr _ \<Rightarrow> Inl TypeError))"

text \<open>\<^verbatim>\<open>_combine_pars\<close>, lines 169-203.\<close>

definition combine_pars :: "store \<Rightarrow> bool \<Rightarrow> bool \<Rightarrow> error + dataframe option" where
  "combine_pars self varied fixed =
     (case map_of self ''parameters'' of
        None \<Rightarrow> Inr None
      | Some parameters \<Rightarrow>
          (case select_pars parameters varied fixed of
             Inl e \<Rightarrow> Inl e
           | Inr None \<Rightarrow> Inr None
           | Inr (Some dfp) \<Rightarrow>
               if shape dfp = (0, 0) then Inr None
               else (case iterations self of
                       Inl e \<Rightarrow> Inl e
                     | Inr its \<Rightarrow>
                         (case (case its of
                                  None \<Rightarrow> Inr dfp
                                | Some n \<Rightarrow> concat_frames (replicate (nat n) dfp)) of
                            Inl e \<Rightarrow> Inl e
                          | Inr dfp' \<Rightarrow>
                              Inr (Some ((reset_index_drop dfp')\<lparr>index_names := [Some ''run_id'']\<rparr>))))))"

section \<open>Arranging\<close>

text \<open>
  \<^verbatim>\<open>arrange\<close>, lines 223-313, step by step. The argument \<^verbatim>\<open>parameters\<close>, when it is not
  \<^verbatim>\<open>None\<close>, is one of the strings \<^verbatim>\<open>'all'\<close>, \<^verbatim>\<open>'varied'\<close>, \<^verbatim>\<open>'static'\<close> or names.
\<close>

datatype psel = PAll | PVaried | PStatic | PNames "string list"

text \<open>
  Step 2, lines 261-265, for the argument \<^verbatim>\<open>measures\<close>. \<^verbatim>\<open>self.measures\<close> is the stored object; a selection of
  columns is a new table. Subscripting an entry that is no table with a list raises
  \<^verbatim>\<open>TypeError\<close>. (\<^verbatim>\<open>measures is not 'all'\<close> is read as \<^verbatim>\<open>measures != 'all'\<close>.)
\<close>

definition measures_step :: "store \<Rightarrow> selector option \<Rightarrow> error + obj option" where
  "measures_step self measure_keys =
     (case measure_keys of
        None \<Rightarrow> Inr None
      | Some sel \<Rightarrow>
          (case getattr self ''measures'' of
             Inl e \<Rightarrow> Inl e
           | Inr dfm \<Rightarrow>
               (case sel of
                  All \<Rightarrow> Inr (if dfm = Val PNone then None else Some (Top ''measures''))
                | Names ms \<Rightarrow>
                    (case dfm of
                       Frame df \<Rightarrow> (case select_columns df ms of
                                      Inl e \<Rightarrow> Inl e
                                    | Inr df' \<Rightarrow> Inr (Some (Fresh df')))
                     | _ \<Rightarrow> Inl TypeError))))"

text \<open>Step 3, lines 268-275.\<close>

definition pars_step :: "store \<Rightarrow> psel option \<Rightarrow> error + dataframe option" where
  "pars_step self parameters =
     (case parameters of
        None \<Rightarrow> Inr None
      | Some p \<Rightarrow>
          (let varied = (p \<noteq> PStatic); static = (p \<noteq> PVaried)
           in case combine_pars self varied static of
                Inl e \<Rightarrow> Inl e
              | Inr dfp \<Rightarrow>
                  (case p of
                     PNames ns \<Rightarrow>
                       (case dfp of
                          None \<Rightarrow> Inl TypeError
                        | Some df \<Rightarrow> map_sum id Some (select_columns df ns))
                   | _ \<Rightarrow> Inr dfp)))"

text \<open>Step 4, lines 278-288: variables and measures.\<close>

definition stack_step :: "store \<Rightarrow> obj option \<Rightarrow> obj option \<Rightarrow> error + obj option" where
  "stack_step self dfv dfm =
     (case dfv of
        Some v \<Rightarrow>
          (case dfm of
             Some m \<Rightarrow>
               (case frame_of self v of
                  Inl e \<Rightarrow> Inl e
                | Inr tv \<Rightarrow>
                    (case frame_of self m of
                       Inl e \<Rightarrow> Inl e
                     | Inr tm \<Rightarrow>
                         (case reset_index tm of
                            Inl e \<Rightarrow> Inl e
                          | Inr tm' \<Rightarrow>
                              (case reset_index tv of
                                 Inl e \<Rightarrow> Inl e
                               | Inr tv' \<Rightarrow>
                                   (case concat_frames [tm', tv'] of
                                      Inl e \<Rightarrow> Inl e
                                    | Inr df \<Rightarrow> map_sum id (\<lambda>d. Some (Fresh d))
                                                  (set_index df (index_names tv)))))))
           | None \<Rightarrow> Inr (Some v))
      | None \<Rightarrow> Inr dfm)"

text \<open>
  \<^verbatim>\<open>df[k] = c\<close> for each given column, on the object \<^verbatim>\<open>df\<close>: an assignment into a stored
  table changes the \<^verbatim>\<open>DataDict\<close>. A cell that holds a list is assigned as a list, element
  by element; any other cell fills the column. The item assignment on an entry that is
  no table is not followed (\<^verbatim>\<open>TypeError\<close>).
\<close>

primrec assign_cols :: "dataframe \<Rightarrow> (string \<times> cell) list \<Rightarrow> error + dataframe" where
  "assign_cols df [] = Inr df"
| "assign_cols df (kc # kcs) =
     (case (case snd kc of
              Cell (PList xs) \<Rightarrow> assign_param df (fst kc) (Val (PList xs))
            | c \<Rightarrow> Inr (set_col df (fst kc) c)) of
        Inl e \<Rightarrow> Inl e
      | Inr df' \<Rightarrow> assign_cols df' kcs)"

definition obj_assign :: "store \<Rightarrow> obj \<Rightarrow> (string \<times> cell) list \<Rightarrow> error + obj option \<times> store" where
  "obj_assign self ob kcs =
     (case ob of
        Fresh df \<Rightarrow> map_sum id (\<lambda>df'. (Some (Fresh df'), self)) (assign_cols df kcs)
      | Top k \<Rightarrow>
          (case map_of self k of
             Some (Frame df) \<Rightarrow>
               map_sum id (\<lambda>df'. (Some (Top k), dict_set self k (Frame df'))) (assign_cols df kcs)
           | _ \<Rightarrow> Inl TypeError)
      | Nested k j \<Rightarrow>
          (case map_of self k of
             Some (DataDict d) \<Rightarrow>
               (case map_of d j of
                  Some (Frame df) \<Rightarrow>
                    map_sum id (\<lambda>df'. (Some (Nested k j),
                                       dict_set self k (DataDict (dict_set d j (Frame df')))))
                      (assign_cols df kcs)
                | _ \<Rightarrow> Inl TypeError)
           | _ \<Rightarrow> Inl TypeError))"

text \<open>
  Step 4, lines 289-300: the parameters. The multi-run branch (\<^verbatim>\<open>dfp.reindex\<close> on the
  level \<^verbatim>\<open>run_id\<close> when \<^verbatim>\<open>df\<close> has a \<^verbatim>\<open>MultiIndex\<close>, then \<^verbatim>\<open>pd.concat\<close> along the columns,
  lines 294-296) is the parameter \<open>merge_runs\<close>. In the single-run branch \<^verbatim>\<open>v[0]\<close> is
  the cell of the row labelled 0, the first row of the \<^verbatim>\<open>run_id\<close> index; without a
  row it raises \<^verbatim>\<open>KeyError\<close>.
\<close>

definition merge_step ::
  "(dataframe \<Rightarrow> dataframe \<Rightarrow> error + dataframe) \<Rightarrow> store \<Rightarrow> obj option \<Rightarrow> dataframe option
     \<Rightarrow> error + obj option \<times> store" where
  "merge_step merge_runs self df dfp =
     (case dfp of
        None \<Rightarrow> Inr (df, self)
      | Some p \<Rightarrow>
          (case df of
             None \<Rightarrow> Inr (Some (Fresh p), self)
           | Some d \<Rightarrow>
               if length (rows p) > 1
               then (case frame_of self d of
                       Inl e \<Rightarrow> Inl e
                     | Inr t \<Rightarrow> map_sum id (\<lambda>t'. (Some (Fresh t'), self)) (merge_runs t p))
               else if columns p = [] then Inr (Some d, self)
               else (case rows p of
                       [] \<Rightarrow> Inl KeyError
                     | r # rs \<Rightarrow> obj_assign self d (zip (columns p) (snd r)))))"

text \<open>Lines 301-313: no data, the scenarios of step 5, the flattening of step 6.\<close>

definition finish_step :: "store \<Rightarrow> obj option \<Rightarrow> selector \<Rightarrow> bool \<Rightarrow> error + entry option" where
  "finish_step self df scenarios index =
     (case df of
        None \<Rightarrow> Inr None
      | Some d \<Rightarrow>
          (case (case scenarios of
                   All \<Rightarrow> Inr d
                 | Names scs \<Rightarrow>
                     (case frame_of self d of
                        Inl e \<Rightarrow> Inl e
                      | Inr t \<Rightarrow> Inr (if Some ''scenario'' \<in> set (index_names t)
                                      then Fresh (query_scenarios t scs) else d))) of
             Inl e \<Rightarrow> Inl e
           | Inr d' \<Rightarrow>
               if \<not> index
               then (case frame_of self d' of
                       Inl e \<Rightarrow> Inl e
                     | Inr t \<Rightarrow> map_sum id (\<lambda>t'. Some (Frame t')) (reset_index t))
               else Inr (deref self d')))"

definition arrange ::
  "(dataframe \<Rightarrow> dataframe \<Rightarrow> error + dataframe) \<Rightarrow> store \<Rightarrow> selector option \<Rightarrow> selector option
     \<Rightarrow> psel option \<Rightarrow> selector \<Rightarrow> selector \<Rightarrow> bool \<Rightarrow> error + entry option \<times> store" where
  "arrange merge_runs self variables measure_keys parameters obj_types scenarios index =
     (case (case variables of
              None \<Rightarrow> Inr (None, self)
            | Some var_keys \<Rightarrow> combine_vars self obj_types var_keys) of
        Inl e \<Rightarrow> Inl e
      | Inr (dfv, self1) \<Rightarrow>
          (case measures_step self1 measure_keys of
             Inl e \<Rightarrow> Inl e
           | Inr dfm \<Rightarrow>
               (case pars_step self1 parameters of
                  Inl e \<Rightarrow> Inl e
                | Inr dfp \<Rightarrow>
                    (case stack_step self1 dfv dfm of
                       Inl e \<Rightarrow> Inl e
                     | Inr df \<Rightarrow>
                         (case merge_step merge_runs self1 df dfp of
                            Inl e \<Rightarrow> Inl e
                          | Inr (df', self2) \<Rightarrow>
                              map_sum id (\<lambda>r. (r, self2))
                                (finish_step self2 df' scenarios index))))))"

text \<open>\<^verbatim>\<open>arrange_variables\<close> and \<^verbatim>\<open>arrange_measures\<close>, lines 205-221, with their defaults.\<close>

definition arrange_variables ::
  "(dataframe \<Rightarrow> dataframe \<Rightarrow> error + dataframe) \<Rightarrow> store \<Rightarrow> error + entry option \<times> store" where
  "arrange_variables merge_runs self =
     arrange merge_runs self (Some All) None (Some PVaried) All All False"

definition arrange_measures ::
  "(dataframe \<Rightarrow> dataframe \<Rightarrow> error + dataframe) \<Rightarrow> store \<Rightarrow> error + entry option \<times> store" where
  "arrange_measures merge_runs self =
     arrange merge_runs self None (Some All) (Some PVaried) All All False"

section \<open>Files\<close>

text \<open>
  The file system below the working directory: the directories and the files, each by
  its path (the list of its components), in the order of their creation. A path string
  is cut at \<^verbatim>\<open>'/'\<close>; empty components and \<^verbatim>\<open>'.'\<close> are dropped, \<^verbatim>\<open>'..'\<close>, absolute paths and
  links are not interpreted. A file holds what was written to it: a CSV text, a JSON
  document, or something else (\<open>Partial\<close>: the text a failed \<^verbatim>\<open>json.dump\<close> leaves, or a
  foreign file). A CSV text is given by the fields of its header and the cells that it
  was printed from, record by record; how pandas prints a cell and what it reads from
  the printed text are not fixed here (see \<open>read_csv\<close> below).

  \<^verbatim>\<open>os.listdir\<close> returns the names in an arbitrary order. \<open>listdir\<close> gives them in one
  order (the directories first, in creation order), which is all that the membership
  test of \<^verbatim>\<open>save\<close> and the maximum of \<^verbatim>\<open>_last_exp_id\<close> need; \<^verbatim>\<open>_load\<close>, whose result
  depends on the order, takes the order of a listing as a parameter.
\<close>

datatype content = CsvText "string list" "cell list list" | JsonText entry | Partial

record filesystem =
  dirs :: "string list list"
  files :: "(string list \<times> content) list"

definition resolve :: "string \<Rightarrow> string list" where
  "resolve path = filter (\<lambda>c. c \<noteq> [] \<and> c \<noteq> ''.'') (split_on CHR ''/'' path)"

definition is_dir :: "filesystem \<Rightarrow> string list \<Rightarrow> bool" where
  "is_dir fs p = (p = [] \<or> p \<in> set (dirs fs))"

definition is_file :: "filesystem \<Rightarrow> string list \<Rightarrow> bool" where
  "is_file fs p = (map_of (files fs) p \<noteq> None)"

definition listdir :: "filesystem \<Rightarrow> string \<Rightarrow> error + string list" where
  "listdir fs path =
     (let p = resolve path
      in if path = [] then Inl FileNotFoundError
         else if is_file fs p then Inl NotADirectoryError
         else if \<not> is_dir fs p then Inl FileNotFoundError
         else Inr (map last (filter (\<lambda>q. q \<noteq> [] \<and> butlast q = p) (dirs fs))
                   @ map (\<lambda>f. last (fst f))
                       (filter (\<lambda>f. fst f \<noteq> [] \<and> butlast (fst f) = p) (files fs))))"

text \<open>
  \<^verbatim>\<open>os.makedirs(path)\<close> (\<^verbatim>\<open>exist_ok=False\<close>): the missing directories on the way are
  created; a target that exists raises \<^verbatim>\<open>FileExistsError\<close>.
\<close>

definition makedirs :: "filesystem \<Rightarrow> string \<Rightarrow> error + filesystem" where
  "makedirs fs path =
     (let p = resolve path
      in if path = [] then Inl FileNotFoundError
         else if is_dir fs p \<or> is_file fs p then Inl FileExistsError
         else if list_ex (\<lambda>n. is_file fs (take n p)) [1..<length p] then Inl NotADirectoryError
         else Inr (fs\<lparr>dirs := dirs fs @ filter (\<lambda>q. \<not> is_dir fs q)
                                          (map (\<lambda>n. take n p) [1..<Suc (length p)])\<rparr>))"

text \<open>\<^verbatim>\<open>open(path, 'w')\<close> and the writing of the whole content.\<close>

definition write_file :: "filesystem \<Rightarrow> string \<Rightarrow> content \<Rightarrow> error + filesystem" where
  "write_file fs path c =
     (let p = resolve path
      in if is_dir fs p then Inl IsADirectoryError
         else if is_file fs (butlast p) then Inl NotADirectoryError
         else if \<not> is_dir fs (butlast p) then Inl FileNotFoundError
         else Inr (fs\<lparr>files := dict_set (files fs) p c\<rparr>))"

definition remove_file :: "filesystem \<Rightarrow> string \<Rightarrow> error + filesystem" where
  "remove_file fs path =
     (let p = resolve path
      in if is_dir fs p then Inl IsADirectoryError
         else if \<not> is_file fs p then Inl FileNotFoundError
         else Inr (fs\<lparr>files := filter (\<lambda>f. fst f \<noteq> p) (files fs)\<rparr>))"

text \<open>
  \<^verbatim>\<open>df.to_csv(path)\<close>: the index levels are written as the leading columns, an unnamed
  level under an empty header field. \<^verbatim>\<open>pd.read_csv(path)\<close> returns a table under a fresh
  \<^verbatim>\<open>RangeIndex\<close>. Its column labels and cells are what pandas makes of the text: the
  parameter \<open>reader\<close> gives them for the header fields and the printed cells of a CSV
  text (the naming of empty and repeated header fields and the types inferred for the
  columns are pandas' and are not fixed here), and gives \<open>None\<close> for a text that pandas
  does not parse. Something that is no CSV text is taken not to parse.
\<close>

type_synonym reader = "string list \<Rightarrow> cell list list \<Rightarrow> (string list \<times> cell list list) option"

definition to_csv :: "filesystem \<Rightarrow> string \<Rightarrow> dataframe \<Rightarrow> error + filesystem" where
  "to_csv fs path df =
     write_file fs path
       (CsvText (map (\<lambda>n. case n of None \<Rightarrow> [] | Some s \<Rightarrow> s) (index_names df) @ columns df)
                (map (\<lambda>(ix, r). ix @ r) (rows df)))"

definition read_csv :: "reader \<Rightarrow> filesystem \<Rightarrow> string \<Rightarrow> error + dataframe" where
  "read_csv reader fs path =
     (case map_of (files fs) (resolve path) of
        None \<Rightarrow> Inl FileNotFoundError
      | Some (CsvText header recs) \<Rightarrow>
          (case reader header recs of
             None \<Rightarrow> Inl ValueError
           | Some (labels, cells) \<Rightarrow>
               Inr \<lparr>index_names = [None], columns = labels,
                    rows = range_rows (map (\<lambda>r. ([], r)) cells)\<rparr>)
      | Some _ \<Rightarrow> Inl ValueError)"

text \<open>
  \<^verbatim>\<open>json.dump(obj, fp, cls=NpEncoder)\<close>: the document written for \<^verbatim>\<open>obj\<close>, as
  \<^verbatim>\<open>json.load\<close> reads it back. \<^verbatim>\<open>NpEncoder.default\<close>, lines 19-27, turns a numpy integer
  into an \<^verbatim>\<open>int\<close> and a numpy float into a \<^verbatim>\<open>float\<close> and leaves any other object to
  \<^verbatim>\<open>JSONEncoder.default\<close>, which raises \<^verbatim>\<open>TypeError\<close> (its array branch is outside the
  value model). A \<^verbatim>\<open>DataDict\<close> is written as the \<^verbatim>\<open>dict\<close> it is.
\<close>

fun json_val :: "pyval \<Rightarrow> error + pyval" and json_vals :: "pyval list \<Rightarrow> error + pyval list" where
  "json_val PNone = Inr PNone"
| "json_val (PBool b) = Inr (PBool b)"
| "json_val (PInt i) = Inr (PInt i)"
| "json_val (PFloat r) = Inr (PFloat r)"
| "json_val (PStr s) = Inr (PStr s)"
| "json_val (PList xs) = map_sum id PList (json_vals xs)"
| "json_val (PNpInt i) = Inr (PInt i)"
| "json_val (PNpFloat r) = Inr (PFloat r)"
| "json_val (PObject n) = Inl TypeError"
| "json_vals [] = Inr []"
| "json_vals (x # xs) =
     (case json_val x of
        Inl e \<Rightarrow> Inl e
      | Inr y \<Rightarrow> (case json_vals xs of Inl e \<Rightarrow> Inl e | Inr ys \<Rightarrow> Inr (y # ys)))"

fun json_entry :: "entry \<Rightarrow> error + entry"
  and json_items :: "(string \<times> entry) list \<Rightarrow> error + (string \<times> entry) list" where
  "json_entry (Val v) = map_sum id Val (json_val v)"
| "json_entry (Frame df) = Inl TypeError"
| "json_entry (Dict d) = map_sum id Dict (json_items d)"
| "json_entry (DataDict d) = map_sum id Dict (json_items d)"
| "json_items [] = Inr []"
| "json_items ((k, v) # d) =
     (case json_entry v of
        Inl e \<Rightarrow> Inl e
      | Inr w \<Rightarrow> (case json_items d of Inl e \<Rightarrow> Inl e | Inr d' \<Rightarrow> Inr ((k, w) # d')))"

section \<open>Saving\<close>

text \<open>
  \<^verbatim>\<open>save\<close>, lines 315-383. A function of this section returns the exception that left
  it, if any, and the file system as it is then.

  Lines 369-376, the \<^verbatim>\<open>else\<close> branch: \<^verbatim>\<open>open\<close> creates the file, and a \<^verbatim>\<open>TypeError\<close> of
  \<^verbatim>\<open>json.dump\<close> is caught and the file removed. The branch belongs to the second \<^verbatim>\<open>if\<close>
  alone, so a table passes through it after it was written as CSV.
\<close>

definition save_json :: "filesystem \<Rightarrow> string \<Rightarrow> entry \<Rightarrow> error option \<times> filesystem" where
  "save_json fs file output =
     (case json_entry output of
        Inr doc \<Rightarrow> (case write_file fs file (JsonText doc) of
                     Inl e \<Rightarrow> (Some e, fs)
                   | Inr fs1 \<Rightarrow> (None, fs1))
      | Inl err \<Rightarrow> (case write_file fs file Partial of
                     Inl e \<Rightarrow> (Some e, fs)
                   | Inr fs1 \<Rightarrow> (case remove_file fs1 file of
                                  Inl e \<Rightarrow> (Some e, fs1)
                                | Inr fs2 \<Rightarrow> (None, fs2))))"

text \<open>
  Lines 361-367, the items of a nested \<^verbatim>\<open>DataDict\<close>: a table as CSV, a mapping as JSON
  (here a \<^verbatim>\<open>TypeError\<close> is not caught and leaves the file behind), nothing for any
  other value.
\<close>

fun save_nested :: "filesystem \<Rightarrow> string \<Rightarrow> (string \<times> entry) list \<Rightarrow> error option \<times> filesystem" where
  "save_nested fs prefix [] = (None, fs)"
| "save_nested fs prefix ((k, o') # rest) =
     (case o' of
        Frame df \<Rightarrow>
          (case to_csv fs (prefix @ ''_'' @ k @ ''.csv'') df of
             Inl e \<Rightarrow> (Some e, fs)
           | Inr fs1 \<Rightarrow> save_nested fs1 prefix rest)
      | Val v \<Rightarrow> save_nested fs prefix rest
      | _ \<Rightarrow>
          (case json_entry o' of
             Inr doc \<Rightarrow>
               (case write_file fs (prefix @ ''_'' @ k @ ''.json'') (JsonText doc) of
                  Inl e \<Rightarrow> (Some e, fs)
                | Inr fs1 \<Rightarrow> save_nested fs1 prefix rest)
           | Inl err \<Rightarrow>
               (case write_file fs (prefix @ ''_'' @ k @ ''.json'') Partial of
                  Inl e \<Rightarrow> (Some e, fs)
                | Inr fs1 \<Rightarrow> (Some err, fs1))))"

text \<open>Lines 355-376: one item of \<^verbatim>\<open>self\<close>; \<open>prefix\<close> is \<^verbatim>\<open>f'{path}/{key}'\<close>.\<close>

definition save_entry :: "filesystem \<Rightarrow> string \<Rightarrow> entry \<Rightarrow> error option \<times> filesystem" where
  "save_entry fs prefix output =
     (case output of
        Frame df \<Rightarrow>
          (case to_csv fs (prefix @ ''.csv'') df of
             Inl e \<Rightarrow> (Some e, fs)
           | Inr fs1 \<Rightarrow> save_json fs1 (prefix @ ''.json'') output)
      | DataDict d \<Rightarrow> save_nested fs prefix d
      | _ \<Rightarrow> save_json fs (prefix @ ''.json'') output)"

fun save_items :: "filesystem \<Rightarrow> string \<Rightarrow> store \<Rightarrow> error option \<times> filesystem" where
  "save_items fs path [] = (None, fs)"
| "save_items fs path ((key, output) # rest) =
     (case save_entry fs (path @ ''/'' @ key) output of
        (Some e, fs1) \<Rightarrow> (Some e, fs1)
      | (None, fs1) \<Rightarrow> save_items fs1 path rest)"

text \<open>
  Lines 337-344: the name of the experiment. \<^verbatim>\<open>self.log['name']\<close> must be a string
  (\<^verbatim>\<open>.replace\<close>): another plain value or a mapping has no such method
  (\<^verbatim>\<open>AttributeError\<close>). A name that is a column of a table is not followed (it is
  answered with \<^verbatim>\<open>AttributeError\<close> as well).
\<close>

definition save_name :: "store \<Rightarrow> string option \<Rightarrow> error + string" where
  "save_name self exp_name =
     (case (case exp_name of
              Some n \<Rightarrow> Inr n
            | None \<Rightarrow>
                (case map_of self ''log'' of
                   None \<Rightarrow> Inr ''Unnamed''
                 | Some lg \<Rightarrow>
                     (case log_has self ''name'' of
                        Inl e \<Rightarrow> Inl e
                      | Inr False \<Rightarrow> Inr ''Unnamed''
                      | Inr True \<Rightarrow>
                          (case log_item self ''name'' of
                             Inl e \<Rightarrow> Inl e
                           | Inr (Val (PStr n)) \<Rightarrow> Inr n
                           | Inr _ \<Rightarrow> Inl AttributeError)))) of
        Inl e \<Rightarrow> Inl e
      | Inr n \<Rightarrow> Inr (replace_str '' '' ''_'' n))"

text \<open>Lines 346-348: the id of the experiment.\<close>

definition save_id :: "filesystem \<Rightarrow> string \<Rightarrow> string \<Rightarrow> int option \<Rightarrow> error + int" where
  "save_id fs exp_name path exp_id =
     (case exp_id of
        Some i \<Rightarrow> Inr i
      | None \<Rightarrow>
          (case listdir fs path of
             Inl e \<Rightarrow> Inl e
           | Inr output_dirs \<Rightarrow> map_sum id (\<lambda>i. i + 1) (last_exp_id exp_name output_dirs)))"

text \<open>Lines 333-335: \<^verbatim>\<open>if path not in listdir(): makedirs(path)\<close>.\<close>

definition ensure_output_dir :: "filesystem \<Rightarrow> string \<Rightarrow> error + filesystem" where
  "ensure_output_dir fs path =
     (case listdir fs ''.'' of
        Inl e \<Rightarrow> Inl e
      | Inr names \<Rightarrow> if path \<notin> set names then makedirs fs path else Inr fs)"

definition save :: "filesystem \<Rightarrow> store \<Rightarrow> string option \<Rightarrow> int option \<Rightarrow> string \<Rightarrow> error option \<times> filesystem" where
  "save fs self exp_name exp_id path =
     (case ensure_output_dir fs path of
        Inl e \<Rightarrow> (Some e, fs)
      | Inr fs1 \<Rightarrow>
          (case save_name self exp_name of
             Inl e \<Rightarrow> (Some e, fs1)
           | Inr name \<Rightarrow>
               (case save_id fs1 name path exp_id of
                  Inl e \<Rightarrow> (Some e, fs1)
                | Inr i \<Rightarrow>
                    (case makedirs fs1 (path @ ''/'' @ name @ ''_'' @ str_int i) of
                       Inl e \<Rightarrow> (Some e, fs1)
                     | Inr fs2 \<Rightarrow>
                         save_items fs2 (path @ ''/'' @ name @ ''_'' @ str_int i) self))))"

section \<open>Loading\<close>

text \<open>
  \<^verbatim>\<open>load_file\<close>, lines 388-417: any exception is caught, and the function then ends
  without a \<^verbatim>\<open>return\<close>, so its value is \<^verbatim>\<open>None\<close>. \<open>parse_file\<close> is the body of the
  \<^verbatim>\<open>try\<close>. A JSON object is wrapped as an \<^verbatim>\<open>AttrDict\<close>, a plain mapping.
\<close>

definition i_cols :: "string list" where
  "i_cols = [''sample_id'', ''run_id'', ''scenario'', ''env_key'', ''agent_id'', ''obj_id'', ''t'']"

definition parse_file :: "reader \<Rightarrow> filesystem \<Rightarrow> string \<Rightarrow> string \<Rightarrow> error + entry" where
  "parse_file reader fs path file =
     (let ext = last (split_on CHR ''.'' file)
      in if ext = ''csv''
         then (case read_csv reader fs (path @ file) of
                 Inl e \<Rightarrow> Inl e
               | Inr obj \<Rightarrow>
                   (let index = filter (\<lambda>i. i \<in> set (columns obj)) i_cols
                    in if index \<noteq> [] then map_sum id Frame (set_index obj (map Some index))
                       else Inr (Frame obj)))
         else if ext = ''json''
         then (case map_of (files fs) (resolve (path @ file)) of
                 None \<Rightarrow> Inl FileNotFoundError
               | Some (JsonText doc) \<Rightarrow> Inr doc
               | Some _ \<Rightarrow> Inl ValueError)
         else Inl ValueError)"

definition load_file :: "reader \<Rightarrow> filesystem \<Rightarrow> string \<Rightarrow> string \<Rightarrow> entry" where
  "load_file reader fs path file =
     (case parse_file reader fs path file of Inl e \<Rightarrow> Val PNone | Inr obj \<Rightarrow> obj)"

text \<open>\<^verbatim>\<open>file[:-(len(ext) + 1)]\<close>: the name without its last dot and extension.\<close>

definition file_stem :: "string \<Rightarrow> string" where
  "file_stem file = take (length file - (length (last (split_on CHR ''.'' file)) + 1)) file"

text \<open>
  \<^verbatim>\<open>self[name][key] = v\<close>, after \<^verbatim>\<open>self[name] = DataDict()\<close> when \<^verbatim>\<open>name\<close> is not in
  \<^verbatim>\<open>self\<close>. What is stored under \<^verbatim>\<open>name\<close> may be a mapping, a table (the assignment of
  a column) or a value without item assignment (\<^verbatim>\<open>TypeError\<close>).
\<close>

definition nested_set :: "store \<Rightarrow> string \<Rightarrow> string \<Rightarrow> entry \<Rightarrow> error + store" where
  "nested_set self name key v =
     (case map_of self name of
        None \<Rightarrow> Inr (dict_set self name (DataDict [(key, v)]))
      | Some (DataDict d) \<Rightarrow> Inr (dict_set self name (DataDict (dict_set d key v)))
      | Some (Dict d) \<Rightarrow> Inr (dict_set self name (Dict (dict_set d key v)))
      | Some (Frame df) \<Rightarrow> map_sum id (\<lambda>df'. dict_set self name (Frame df')) (assign_param df key v)
      | Some (Val x) \<Rightarrow> Inl TypeError)"

text \<open>Lines 438-454: the body of the loop for one file, and the loop.\<close>

definition load_step :: "reader \<Rightarrow> filesystem \<Rightarrow> string \<Rightarrow> store \<Rightarrow> string \<Rightarrow> error + store" where
  "load_step reader fs path self file =
     (if contains file ''variables_''
      then nested_set self ''variables'' (replace_str ''variables_'' [] (file_stem file))
             (load_file reader fs path file)
      else if contains file ''parameters_''
      then nested_set self ''parameters'' (replace_str ''parameters_'' [] (file_stem file))
             (load_file reader fs path file)
      else Inr (dict_set self (file_stem file) (load_file reader fs path file)))"

primrec load_files ::
  "reader \<Rightarrow> filesystem \<Rightarrow> string \<Rightarrow> store \<Rightarrow> string list \<Rightarrow> error + store" where
  "load_files reader fs path self [] = Inr self"
| "load_files reader fs path self (file # rest) =
     (case load_step reader fs path self file of
        Inl e \<Rightarrow> Inl e
      | Inr self' \<Rightarrow> load_files reader fs path self' rest)"

text \<open>
  Lines 420-425: without a name, the experiment modified last. The modification times
  are the parameter \<open>getmtime\<close>, and the order in which \<^verbatim>\<open>os.listdir\<close> returns the names
  of a directory is the parameter \<open>order\<close>, applied to the listing; \<^verbatim>\<open>max\<close> takes the first
  of the latest, and raises \<^verbatim>\<open>ValueError\<close> on an empty listing. \<^verbatim>\<open>s.rsplit('_', 1)[0]\<close> is
  \<open>rsplit_head\<close>.
\<close>

definition path_join :: "string \<Rightarrow> string \<Rightarrow> string" where
  "path_join a b = (if a = [] \<or> last a = CHR ''/'' then a @ b else a @ ''/'' @ b)"

primrec max_by :: "('a \<Rightarrow> nat) \<Rightarrow> 'a \<Rightarrow> 'a list \<Rightarrow> 'a" where
  "max_by f best [] = best"
| "max_by f best (x # xs) = max_by f (if f x > f best then x else best) xs"

definition rsplit_head :: "char \<Rightarrow> string \<Rightarrow> string" where
  "rsplit_head c s = (if c \<in> set s then rev (tl (dropWhile (\<lambda>x. x \<noteq> c) (rev s))) else s)"

definition load_name ::
  "(string \<Rightarrow> nat) \<Rightarrow> (string list \<Rightarrow> string list) \<Rightarrow> filesystem \<Rightarrow> string option \<Rightarrow> string
     \<Rightarrow> error + string" where
  "load_name getmtime order fs exp_name path =
     (case (case exp_name of
              Some n \<Rightarrow> Inr n
            | None \<Rightarrow>
                (case listdir fs path of
                   Inl e \<Rightarrow> Inl e
                 | Inr exp_names \<Rightarrow>
                     (case order exp_names of
                        [] \<Rightarrow> Inl ValueError
                      | d # ds \<Rightarrow>
                          Inr (rsplit_head CHR ''_''
                                 (max_by (\<lambda>n. getmtime (path_join path n)) d ds))))) of
        Inl e \<Rightarrow> Inl e
      | Inr n \<Rightarrow> Inr (replace_str '' '' ''_'' n))"

text \<open>Lines 428-432: \<^verbatim>\<open>not exp_id\<close> holds of \<^verbatim>\<open>None\<close> and of 0.\<close>

definition load_id :: "filesystem \<Rightarrow> string \<Rightarrow> string \<Rightarrow> int option \<Rightarrow> error + int" where
  "load_id fs exp_name path exp_id =
     (if exp_id = None \<or> exp_id = Some 0
      then (case listdir fs path of
              Inl e \<Rightarrow> Inl e
            | Inr output_dirs \<Rightarrow>
                (case last_exp_id exp_name output_dirs of
                   Inl e \<Rightarrow> Inl e
                 | Inr i \<Rightarrow> if i = 0 then Inl FileNotFoundError else Inr i))
      else (case exp_id of Some i \<Rightarrow> Inr i | None \<Rightarrow> Inl FileNotFoundError))"

text \<open>\<^verbatim>\<open>DataDict._load\<close>, lines 385-455, and \<^verbatim>\<open>load\<close>, lines 458-472.\<close>

definition load_into ::
  "(string \<Rightarrow> nat) \<Rightarrow> (string list \<Rightarrow> string list) \<Rightarrow> reader \<Rightarrow> filesystem \<Rightarrow> store
     \<Rightarrow> string option \<Rightarrow> int option \<Rightarrow> string \<Rightarrow> error + store" where
  "load_into getmtime order reader fs self exp_name exp_id path =
     (case load_name getmtime order fs exp_name path of
        Inl e \<Rightarrow> Inl e
      | Inr name \<Rightarrow>
          (case load_id fs name path exp_id of
             Inl e \<Rightarrow> Inl e
           | Inr i \<Rightarrow>
               (case listdir fs (path @ ''/'' @ name @ ''_'' @ str_int i @ ''/'') of
                  Inl e \<Rightarrow> Inl e
                | Inr names \<Rightarrow>
                    load_files reader fs (path @ ''/'' @ name @ ''_'' @ str_int i @ ''/'') self
                      (order names))))"

definition load ::
  "(string \<Rightarrow> nat) \<Rightarrow> (string list \<Rightarrow> string list) \<Rightarrow> reader \<Rightarrow> filesystem
     \<Rightarrow> string option \<Rightarrow> int option \<Rightarrow> string \<Rightarrow> error + store" where
  "load getmtime order reader fs exp_name exp_id path =
     load_into getmtime order reader fs [] exp_name exp_id path"

section \<open>Example stores and directories\<close>

text \<open>The concrete inputs at which the properties below are evaluated.\<close>

definition model_table :: dataframe where
  "model_table = \<lparr>index_names = [Some ''t''], columns = [''pop''],
     rows = [([Cell (PInt 0)], [Cell (PInt 10)]), ([Cell (PInt 1)], [Cell (PInt 12)])]\<rparr>"

definition agent_table :: dataframe where
  "agent_table = \<lparr>index_names = [Some ''obj_id'', Some ''t''], columns = [''x''],
     rows = [([Cell (PInt 1), Cell (PInt 0)], [Cell (PInt 5)])]\<rparr>"

definition two_category_store :: store where
  "two_category_store =
     [(''log'', Dict [(''model_type'', Val (PStr ''Model''))]),
      (''variables'', DataDict [(''Model'', Frame model_table), (''Agent'', Frame agent_table)])]"

definition sibling_dirs :: filesystem where
  "sibling_dirs =
     \<lparr>dirs = [[''ap_output''], [''ap_output'', ''test_1''], [''ap_output'', ''mytest_5'']],
      files = []\<rparr>"

definition varied_table :: dataframe where
  "varied_table = \<lparr>index_names = [Some ''sample_id''], columns = [''a''],
     rows = [([Cell (PInt 0)], [Cell (PInt 7)]), ([Cell (PInt 1)], [Cell (PInt 8)])]\<rparr>"

definition three_iterations_store :: store where
  "three_iterations_store =
     [(''log'', Dict [(''iterations'', Val (PInt 3))]), (''parameters'', Frame varied_table)]"

definition no_rows_table :: dataframe where
  "no_rows_table = \<lparr>index_names = [Some ''sample_id''], columns = [''a'', ''b''], rows = []\<rparr>"

definition no_rows_store :: store where
  "no_rows_store = [(''log'', Dict []), (''parameters'', Frame no_rows_table)]"

definition xy_table :: dataframe where
  "xy_table = \<lparr>index_names = [Some ''obj_id'', Some ''t''], columns = [''x'', ''y''],
     rows = [([Cell (PInt 1), Cell (PInt 0)], [Cell (PInt 5), Cell (PInt 6)])]\<rparr>"

definition single_category_store :: store where
  "single_category_store = [(''variables'', DataDict [(''Agent'', Frame xy_table)])]"

text \<open>
  The replication as the specification words it: every row repeated \<open>n\<close> times
  contiguously.
\<close>

definition repeat_each :: "nat \<Rightarrow> 'a list \<Rightarrow> 'a list" where
  "repeat_each n xs = concat (map (replicate n) xs)"

definition fs_empty :: filesystem where
  "fs_empty = \<lparr>dirs = [], files = []\<rparr>"

definition saved_once :: filesystem where
  "saved_once =
     \<lparr>dirs = [[''ap_output''], [''ap_output'', ''my_exp_1'']],
      files =
        [([''ap_output'', ''my_exp_1'', ''log.json''],
          JsonText (Dict [(''model_type'', Val (PStr ''Model''))])),
         ([''ap_output'', ''my_exp_1'', ''variables_Model.csv''],
          CsvText [''t'', ''pop'']
            [[Cell (PInt 0), Cell (PInt 10)], [Cell (PInt 1), Cell (PInt 12)]]),
         ([''ap_output'', ''my_exp_1'', ''variables_Agent.csv''],
          CsvText [''obj_id'', ''t'', ''x''] [[Cell (PInt 1), Cell (PInt 0), Cell (PInt 5)]])]\<rparr>"

text \<open>
  What saving keeps of a file system: its directories, and that the working directory
  is no file.
\<close>

definition keeps :: "filesystem \<Rightarrow> filesystem \<Rightarrow> bool" where
  "keeps fs fs' = (dirs fs' = dirs fs \<and> (is_file fs' [] \<longrightarrow> is_file fs []))"

text \<open>
  The key a file is loaded into, lines 439-454: a key of the \<^verbatim>\<open>DataDict\<close> itself, or a
  key of the nested \<^verbatim>\<open>DataDict\<close> under \<^verbatim>\<open>variables\<close> or \<^verbatim>\<open>parameters\<close>. \<open>top_key\<close> is
  the key of the \<^verbatim>\<open>DataDict\<close> that the loop body assigns or reads for it,
  \<open>target_value\<close> what a store holds at a target, and a file \<open>disturbs\<close> the target of
  another one when it is loaded into the same key or over its container.
\<close>

datatype target = TopKey string | NestedKey string string

definition target_of :: "string \<Rightarrow> target" where
  "target_of file =
     (if contains file ''variables_''
      then NestedKey ''variables'' (replace_str ''variables_'' [] (file_stem file))
      else if contains file ''parameters_''
      then NestedKey ''parameters'' (replace_str ''parameters_'' [] (file_stem file))
      else TopKey (file_stem file))"

definition top_key :: "target \<Rightarrow> string" where
  "top_key t = (case t of TopKey k \<Rightarrow> k | NestedKey c k \<Rightarrow> c)"

definition target_value :: "store \<Rightarrow> target \<Rightarrow> entry option" where
  "target_value self t =
     (case t of
        TopKey k \<Rightarrow> map_of self k
      | NestedKey c k \<Rightarrow>
          (case map_of self c of
             Some (DataDict d) \<Rightarrow> map_of d k
           | Some (Dict d) \<Rightarrow> map_of d k
           | _ \<Rightarrow> None))"

definition disturbs :: "target \<Rightarrow> target \<Rightarrow> bool" where
  "disturbs t u =
     (case u of
        TopKey k \<Rightarrow> top_key t = k
      | NestedKey c k \<Rightarrow> t = TopKey c \<or> t = NestedKey c k)"

text \<open>Two experiment directories with files that do not parse.\<close>

definition notes_dir :: filesystem where
  "notes_dir =
     \<lparr>dirs = [[''out''], [''out'', ''e_1'']],
      files = [([''out'', ''e_1'', ''notes.txt''], Partial),
               ([''out'', ''e_1'', ''notes.json''], JsonText (Val (PInt 1)))]\<rparr>"

definition bad_file_dir :: filesystem where
  "bad_file_dir =
     \<lparr>dirs = [[''out''], [''out'', ''e_1'']],
      files = [([''out'', ''e_1'', ''notes.txt''], Partial),
               ([''out'', ''e_1'', ''variables_Agent.xml''], Partial),
               ([''out'', ''e_1'', ''log.json''], JsonText (Val (PInt 1)))]\<rparr>"

text \<open>Two invariants of the loop of \<^verbatim>\<open>_load\<close> on the entry under a key \<open>c\<close>.\<close>

definition holds_at :: "store \<Rightarrow> string \<Rightarrow> string \<Rightarrow> entry \<Rightarrow> bool" where
  "holds_at self c k v = (\<exists>d. map_of self c = Some (DataDict d) \<and> map_of d k = Some v)"

definition free_or_DataDict :: "store \<Rightarrow> string \<Rightarrow> bool" where
  "free_or_DataDict self c = (map_of self c = None \<or> (\<exists>d. map_of self c = Some (DataDict d)))"



definition same_levels :: "entry \<Rightarrow> string option list \<Rightarrow> bool" where
  "same_levels e ns = (case e of Frame df \<Rightarrow> index_names df = ns | _ \<Rightarrow> True)"




text \<open>
  The table of the runs that \<^verbatim>\<open>_combine_pars\<close> makes of an assembled table \<open>dfp\<close>, lines
  199-203, as C9 is settled below: the columns of \<open>dfp\<close>, its rows (all of them \<open>n\<close> times
  over when the log counts \<open>n > 1\<close> iterations), and the index \<^verbatim>\<open>run_id\<close> = 0, 1, ...;
  \<open>returned_runs self dfp\<close> is that table, or the exception that the test of the
  iterations in the log raises.
\<close>

definition run_table :: "dataframe \<Rightarrow> int option \<Rightarrow> dataframe" where
  "run_table dfp its =
     \<lparr>index_names = [Some ''run_id''], columns = columns dfp,
      rows = range_rows (concat (replicate (case its of None \<Rightarrow> 1 | Some n \<Rightarrow> nat n) (rows dfp)))\<rparr>"

definition returned_runs :: "store \<Rightarrow> dataframe \<Rightarrow> error + dataframe option" where
  "returned_runs self dfp =
     (case iterations self of Inl e \<Rightarrow> Inl e | Inr its \<Rightarrow> Inr (Some (run_table dfp its)))"

text \<open>
  A table of two rows without a column, and a store with both kinds of parameters: a
  table of varied parameters that has two columns and no row, and one fixed parameter.
\<close>

definition no_columns_table :: dataframe where
  "no_columns_table = \<lparr>index_names = [Some ''sample_id''], columns = [],
     rows = [([Cell (PInt 0)], []), ([Cell (PInt 1)], [])]\<rparr>"

definition both_store :: store where
  "both_store =
     [(''log'', Dict [(''iterations'', Val (PInt 2))]),
      (''parameters'', DataDict [(''varied'', Frame no_rows_table),
                                 (''fixed'', Dict [(''c'', Val (PInt 5))])])]"








text \<open>
  A reader that returns the header fields and the cells as they were printed: what
  \<^verbatim>\<open>pd.read_csv\<close> does with a text whose header fields are distinct and not empty and
  whose cells are integers. It is used for the examples only.
\<close>

definition as_printed :: reader where
  "as_printed header cells = Some (header, cells)"

text \<open>
  The loop of \<^verbatim>\<open>_load\<close>, as C10 is settled below. \<open>mapping_or_free self c\<close> says that the
  store has nothing under the key \<open>c\<close> or a mapping, so that line 442 or 447 can assign
  an item there, and \<open>loads_mapping\<close> that \<^verbatim>\<open>load_file\<close> returns a mapping for a file.
  \<open>containers_free\<close> goes through a listing file by file and keeps the keys that hold
  something else than a mapping at that moment (\<open>blocked\<close>): a file that is loaded
  into a nested \<^verbatim>\<open>DataDict\<close> must not find its key among them.
\<close>

definition mapping_or_free :: "store \<Rightarrow> string \<Rightarrow> bool" where
  "mapping_or_free self c =
     (case map_of self c of
        None \<Rightarrow> True | Some (Dict d) \<Rightarrow> True | Some (DataDict d) \<Rightarrow> True | Some _ \<Rightarrow> False)"

definition loads_mapping :: "reader \<Rightarrow> filesystem \<Rightarrow> string \<Rightarrow> string \<Rightarrow> bool" where
  "loads_mapping reader fs path f =
     (case load_file reader fs path f of Dict d \<Rightarrow> True | DataDict d \<Rightarrow> True | _ \<Rightarrow> False)"

primrec containers_free ::
  "reader \<Rightarrow> filesystem \<Rightarrow> string \<Rightarrow> string list \<Rightarrow> string list \<Rightarrow> bool" where
  "containers_free reader fs path blocked [] = True"
| "containers_free reader fs path blocked (f # fl) =
     (case target_of f of
        TopKey k \<Rightarrow>
          containers_free reader fs path
            (if loads_mapping reader fs path f then removeAll k blocked else k # blocked) fl
      | NestedKey c k \<Rightarrow> c \<notin> set blocked \<and> containers_free reader fs path blocked fl)"

text \<open>
  A directory with the variables as a number, and a file of variables that does not
  parse.
\<close>

definition scalar_dir :: filesystem where
  "scalar_dir =
     \<lparr>dirs = [[''out''], [''out'', ''e_1'']],
      files = [([''out'', ''e_1'', ''variables.json''], JsonText (Val (PInt 5))),
               ([''out'', ''e_1'', ''variables_Agent.xml''], Partial)]\<rparr>"

section \<open>Properties\<close>

subsection \<open>Equality (C6)\<close>

text \<open>
  C6 reads: \<^verbatim>\<open>A == B\<close> holds exactly when \<^verbatim>\<open>A\<close> and \<^verbatim>\<open>B\<close> have the same keys and equal
  entries, and fails whenever \<^verbatim>\<open>B\<close> has a key that \<^verbatim>\<open>A\<close> lacks. The loop of \<^verbatim>\<open>__eq__\<close>
  runs over the items of \<^verbatim>\<open>self\<close> only: the empty \<^verbatim>\<open>DataDict\<close> equals the \<^verbatim>\<open>DataDict\<close>
  with the single entry \<^verbatim>\<open>x = 1\<close>, while the comparison the other way round fails.
\<close>

theorem DataDict_eq_ignores_extra_keys:
  "DataDict_eq [] (DataDict [(''x'', Val (PInt 1))]) = Inr True
   \<and> DataDict_eq [(''x'', Val (PInt 1))] (DataDict []) = Inr False"
  by (simp add: DataDict_eq_def)

subsection \<open>The experiment id (C8)\<close>

text \<open>
  C8 reads: without an explicit id, \<^verbatim>\<open>save\<close> takes one more than the largest \<^verbatim>\<open>N\<close> among
  the sibling directories named \<^verbatim>\<open>{exp_name}_{N}\<close>, and other directories have no
  influence. \<^verbatim>\<open>_last_exp_id\<close> takes every name that contains \<^verbatim>\<open>exp_name\<close>: next to
  \<^verbatim>\<open>test_1\<close> and \<^verbatim>\<open>mytest_5\<close> the experiment \<^verbatim>\<open>test\<close> gets the id 6, not 2.
\<close>

theorem save_id_counts_other_experiments:
  "save_id sibling_dirs ''test'' ''ap_output'' None = Inr 6"
  by code_simp

subsection \<open>Arranging leaves the store alone (C5)\<close>

text \<open>
  C5 reads: \<^verbatim>\<open>arrange\<close> leaves every entry of the store unchanged. With two categories
  of variables, one of them the model type, the stored table of the model has the
  column \<^verbatim>\<open>obj_id\<close> after \<^verbatim>\<open>arrange(variables='all')\<close>: the second component below is
  the store after the call.
\<close>

theorem arrange_adds_obj_id_to_stored_table:
  "map_sum id snd (arrange merge_runs two_category_store (Some All) None None All All False)
   = Inr [(''log'', Dict [(''model_type'', Val (PStr ''Model''))]),
          (''variables'',
           DataDict
             [(''Model'', Frame (model_table\<lparr>columns := [''pop'', ''obj_id''],
                 rows := [([Cell (PInt 0)], [Cell (PInt 10), Cell (PInt 0)]),
                          ([Cell (PInt 1)], [Cell (PInt 12), Cell (PInt 0)])]\<rparr>)),
              (''Agent'', Frame agent_table)])]"
  by code_simp

subsection \<open>Iterations in the parameter table (C2)\<close>

lemma map_fst_enumerate_fun:
  "map (\<lambda>p. f (fst p)) (enumerate n rs) = map f [n..<n + length rs]"
proof -
  have "map (\<lambda>p. f (fst p)) (enumerate n rs) = map f (map fst (enumerate n rs))"
    by (simp only: map_map comp_def)
  also have "\<dots> = map f [n..<n + length rs]"
    by (simp only: map_fst_enumerate)
  finally show ?thesis .
qed

lemma map_snd_enumerate_fun: "map (\<lambda>p. g (snd p)) (enumerate n rs) = map g rs"
proof -
  have "map (\<lambda>p. g (snd p)) (enumerate n rs) = map g (map snd (enumerate n rs))"
    by (simp only: map_map comp_def)
  also have "\<dots> = map g rs"
    by (simp only: map_snd_enumerate)
  finally show ?thesis .
qed

lemma map_fst_range_rows:
  "map fst (range_rows rs) = map (\<lambda>i. [Cell (PInt (int i))]) [0..<length rs]"
  using map_fst_enumerate_fun [of "\<lambda>i. [Cell (PInt (int i))]" 0 rs]
  by (simp add: range_rows_def split_def comp_def)

lemma map_snd_range_rows: "map snd (range_rows rs) = map snd rs"
  using map_snd_enumerate_fun [of snd 0 rs]
  by (simp add: range_rows_def split_def comp_def)

lemma union_columns_replicate: "0 < k \<Longrightarrow> union_columns (replicate k d) = columns d"
  by (cases k) (simp_all add: union_columns_def list_all_iff)

lemma same_nlevels_replicate: "same_nlevels (replicate k d)"
  by (cases k) (simp_all add: same_nlevels_def list_all_iff)

lemma to_float_float: "float_cell x \<Longrightarrow> to_float x = x"
  by (auto simp add: float_cell_def to_float_def split: cell.splits pyval.splits)

lemma promote_row_id:
  assumes "\<And>i. i < length r \<Longrightarrow> i < length cols \<Longrightarrow> P (cols ! i) \<Longrightarrow> float_cell (r ! i)"
  shows "promote_row cols P r = r"
proof (rule nth_equalityI)
  show "length (promote_row cols P r) = length r" by (simp add: promote_row_def)
next
  fix i assume "i < length (promote_row cols P r)"
  then have i: "i < length r" by (simp add: promote_row_def)
  then show "promote_row cols P r ! i = r ! i"
    by (simp add: promote_row_def nth_enumerate_eq assms to_float_float)
qed

lemma cells_under_mem:
  assumes "(ix, r) \<in> set (rows d)" and "i < length r" and "i < length (columns d)"
  shows "r ! i \<in> set (cells_under d (columns d ! i))"
proof -
  from assms(2,3) have "(columns d ! i, r ! i) \<in> set (zip (columns d) r)"
    by (auto simp add: set_zip)
  then have "r ! i \<in> set (map snd (filter (\<lambda>(l, x). l = columns d ! i) (zip (columns d) r)))"
    by force
  with assms(1) show ?thesis by (force simp add: cells_under_def)
qed

lemma promoted_replicate:
  "promoted (replicate k d) c \<Longrightarrow> c \<in> set (columns d) \<Longrightarrow> list_all float_cell (cells_under d c)"
  by (auto simp add: promoted_def list_ex_iff)

lemma stacked_rows_replicate:
  assumes "0 < k"
  shows "stacked_rows (replicate k d) d = rows d"
proof -
  have "promote_row (columns d) (promoted (replicate k d)) (snd row) = snd row"
    if row: "row \<in> set (rows d)" for row
  proof (rule promote_row_id)
    fix i assume i: "i < length (snd row)" "i < length (columns d)"
      and p: "promoted (replicate k d) (columns d ! i)"
    from i(2) have "columns d ! i \<in> set (columns d)" by simp
    from promoted_replicate [OF p this] have "list_all float_cell (cells_under d (columns d ! i))" .
    moreover from row have "(fst row, snd row) \<in> set (rows d)" by simp
    from cells_under_mem [OF this i] have "snd row ! i \<in> set (cells_under d (columns d ! i))" .
    ultimately show "float_cell (snd row ! i)" by (simp add: list_all_iff)
  qed
  then have "map (\<lambda>row. (fst row, promote_row (columns d) (promoted (replicate k d)) (snd row))) (rows d)
      = map (\<lambda>row. row) (rows d)"
    by (intro map_cong [OF refl]) simp
  with assms show ?thesis
    by (simp add: stacked_rows_def union_columns_replicate align_rows_def split_def)
qed

lemma concat_frames_replicate:
  "0 < k \<Longrightarrow> \<exists>ns. concat_frames (replicate k d)
     = Inr \<lparr>index_names = ns, columns = columns d, rows = concat (replicate k (rows d))\<rparr>"
proof -
  assume k: "0 < k"
  then have "map (stacked_rows (replicate k d)) (replicate k d) = replicate k (rows d)"
    by (simp add: stacked_rows_replicate)
  with k show ?thesis
    by (simp add: concat_frames_def same_nlevels_replicate union_columns_replicate)
qed

lemma map_snd_concat_replicate:
  "map snd (concat (replicate k xs)) = concat (replicate k (map snd xs))"
  by (induction k) simp_all

text \<open>
  C2 reads: with \<open>n > 1\<close> iterations in the log, \<^verbatim>\<open>_combine_pars\<close> repeats each row of
  the parameter table \<open>n\<close> times contiguously and numbers the rows afresh as
  \<^verbatim>\<open>run_id\<close>. The code concatenates \<open>n\<close> copies of the whole table
  (\<^verbatim>\<open>pd.concat([dfp] * n)\<close>): the rows of the table in their order, then all of them
  again, \<open>n\<close> times, so that row \<open>i\<close> of the result is row \<open>i mod m\<close> of a table of
  \<open>m\<close> rows. The theorem holds for every parameter table \<open>dfp\<close> that lines 175-194
  select and that has a row or a column: the result has the columns of \<open>dfp\<close>, the
  cells of \<open>dfp\<close> repeated as a block, and the index \<^verbatim>\<open>run_id\<close> = 0, 1, ...
\<close>

theorem combine_pars_repeats_whole_table:
  assumes "map_of self ''parameters'' = Some ps"
    and "select_pars ps varied fixed = Inr (Some dfp)"
    and "shape dfp \<noteq> (0, 0)"
    and "map_of self ''log'' = Some (Dict lg)"
    and "map_of lg ''iterations'' = Some (Val (PInt n))"
    and "1 < n"
  shows "\<exists>t. combine_pars self varied fixed = Inr (Some t)
           \<and> index_names t = [Some ''run_id'']
           \<and> columns t = columns dfp
           \<and> map snd (rows t) = concat (replicate (nat n) (map snd (rows dfp)))
           \<and> map fst (rows t)
               = map (\<lambda>i. [Cell (PInt (int i))]) [0..<nat n * length (rows dfp)]"
proof -
  from assms(4,5,6) have its: "iterations self = Inr (Some n)"
    by (simp add: iterations_def log_has_def log_item_def getattr_def)
  from assms(6) have "0 < nat n" by simp
  from concat_frames_replicate [OF this]
  obtain ns where cf: "concat_frames (replicate (nat n) dfp)
      = Inr \<lparr>index_names = ns, columns = columns dfp, rows = concat (replicate (nat n) (rows dfp))\<rparr>"
    by blast
  have "combine_pars self varied fixed
      = Inr (Some \<lparr>index_names = [Some ''run_id''], columns = columns dfp,
                   rows = range_rows (concat (replicate (nat n) (rows dfp)))\<rparr>)"
    using assms(1,2,3) its cf by (simp add: combine_pars_def reset_index_drop_def)
  then show ?thesis
    by (simp add: map_fst_range_rows map_snd_range_rows map_snd_concat_replicate
        length_concat sum_list_replicate)
qed

text \<open>The theorem at three iterations and a varied table of two rows.\<close>

theorem combine_pars_repeats_whole_table_witness:
  "map_sum id (map_option (\<lambda>t. map snd (rows t))) (combine_pars three_iterations_store True True)
   = Inr (Some (concat (replicate 3 [[Cell (PInt 7)], [Cell (PInt 8)]])))"
  using combine_pars_repeats_whole_table [of three_iterations_store "Frame varied_table" True True
      varied_table "[(''iterations'', Val (PInt 3))]" 3]
  by (auto simp add: three_iterations_store_def varied_table_def select_pars_def shape_def)

text \<open>
  C2 as stated fails there: the six rows are 7, 8, 7, 8, 7, 8, and each row three
  times contiguously would be 7, 7, 7, 8, 8, 8.
\<close>

theorem combine_pars_not_contiguous:
  "map_sum id (map_option (\<lambda>t. map snd (rows t))) (combine_pars three_iterations_store True True)
     = Inr (Some [[Cell (PInt 7)], [Cell (PInt 8)], [Cell (PInt 7)], [Cell (PInt 8)],
                  [Cell (PInt 7)], [Cell (PInt 8)]])
   \<and> repeat_each 3 (map snd (rows varied_table))
     = [[Cell (PInt 7)], [Cell (PInt 7)], [Cell (PInt 7)], [Cell (PInt 8)],
        [Cell (PInt 8)], [Cell (PInt 8)]]"
  by code_simp

subsection \<open>A single category of variables (C3)\<close>

text \<open>
  C3 reads: with exactly one category of variables, \<^verbatim>\<open>arrange(variables='all')\<close> returns
  that category's table, restricted to the requested columns when names are given
  instead. For \<^verbatim>\<open>variables='all'\<close> (no measures, no parameters, all scenarios) the
  code returns the stored table itself when \<^verbatim>\<open>index\<close> is true, and otherwise, as by
  default, that table flattened by \<^verbatim>\<open>reset_index\<close>; the store is unchanged.
\<close>

theorem arrange_single_category:
  assumes "map_of self ''variables'' = Some (DataDict [(k, Frame t)])"
  shows "arrange merge_runs self (Some All) None None obj_types All True
           = Inr (Some (Frame t), self)
       \<and> arrange merge_runs self (Some All) None None obj_types All False
           = (case reset_index t of
                Inl e \<Rightarrow> Inl e
              | Inr t' \<Rightarrow> Inr (Some (Frame t'), self))"
  using assms
  by (cases "reset_index t")
     (simp_all add: arrange_def combine_vars_def measures_step_def pars_step_def stack_step_def
        merge_step_def finish_step_def frame_of_def deref_def)

theorem arrange_single_category_witness:
  "arrange (\<lambda>a b. Inr a) single_category_store (Some All) None None All All True
     = Inr (Some (Frame xy_table), single_category_store)
   \<and> arrange (\<lambda>a b. Inr a) single_category_store (Some All) None None All All False
     = Inr (Some (Frame \<lparr>index_names = [None], columns = [''obj_id'', ''t'', ''x'', ''y''],
              rows = [([Cell (PInt 0)],
                       [Cell (PInt 1), Cell (PInt 0), Cell (PInt 5), Cell (PInt 6)])]\<rparr>),
            single_category_store)"
proof -
  have m: "map_of single_category_store ''variables''
             = Some (DataDict [(''Agent'', Frame xy_table)])"
    by (simp add: single_category_store_def)
  have r: "reset_index xy_table
             = Inr \<lparr>index_names = [None], columns = [''obj_id'', ''t'', ''x'', ''y''],
                    rows = [([Cell (PInt 0)],
                             [Cell (PInt 1), Cell (PInt 0), Cell (PInt 5), Cell (PInt 6)])]\<rparr>"
    by code_simp
  show ?thesis
    using arrange_single_category [OF m, of "\<lambda>a b. Inr a" All] by (simp add: r)
qed

text \<open>
  C3 as stated fails twice on a store whose only category has the index levels
  \<^verbatim>\<open>obj_id\<close>, \<^verbatim>\<open>t\<close> and the columns \<^verbatim>\<open>x\<close>, \<^verbatim>\<open>y\<close>: \<^verbatim>\<open>arrange(variables='all')\<close> returns the
  flattened table, not the category's table; and \<^verbatim>\<open>arrange(variables=['x'],
  index=True)\<close> returns the table with both columns, not its restriction to \<^verbatim>\<open>x\<close>.
\<close>

theorem arrange_single_category_flattens_and_keeps_columns:
  "map_sum id fst
     (arrange (\<lambda>a b. Inr a) single_category_store (Some All) None None All All False)
     = Inr (Some (Frame \<lparr>index_names = [None], columns = [''obj_id'', ''t'', ''x'', ''y''],
              rows = [([Cell (PInt 0)],
                       [Cell (PInt 1), Cell (PInt 0), Cell (PInt 5), Cell (PInt 6)])]\<rparr>))
   \<and> map_sum id fst
       (arrange (\<lambda>a b. Inr a) single_category_store (Some (Names [''x''])) None None All All True)
     = Inr (Some (Frame xy_table))
   \<and> select_columns xy_table [''x'']
     = Inr \<lparr>index_names = [Some ''obj_id'', Some ''t''], columns = [''x''],
            rows = [([Cell (PInt 1), Cell (PInt 0)], [Cell (PInt 5)])]\<rparr>"
  by code_simp

subsection \<open>Saving twice (C7)\<close>

lemma split_on_not_Nil: "split_on c s \<noteq> []"
  by (induction s) (auto split: list.splits)

lemma split_on_append:
  "split_on c (a @ c # b) = split_on c a @ split_on c b"
proof (induction a)
  case Nil
  show ?case by simp
next
  case (Cons x a)
  show ?case
  proof (cases "x = c")
    case True
    with Cons show ?thesis by simp
  next
    case False
    obtain w ws where w: "split_on c a = w # ws"
      using split_on_not_Nil [of c a] by (cases "split_on c a") auto
    with False Cons show ?thesis by simp
  qed
qed

lemma resolve_append: "resolve (a @ CHR ''/'' # b) = resolve a @ resolve b"
  by (simp add: resolve_def split_on_append)

lemma resolve_dot: "resolve ''.'' = []"
  by (simp add: resolve_def)

lemma makedirs_files: "makedirs fs s = Inr fs' \<Longrightarrow> files fs' = files fs"
  by (auto simp add: makedirs_def Let_def split: if_splits)

lemma makedirs_creates:
  assumes "makedirs fs s = Inr fs'" and "0 < n" and "n \<le> length (resolve s)"
  shows "take n (resolve s) \<in> set (dirs fs')"
proof -
  let ?p = "resolve s"
  from assms(1) have d: "dirs fs' = dirs fs @ filter (\<lambda>q. \<not> is_dir fs q)
      (map (\<lambda>n. take n ?p) [1..<Suc (length ?p)])"
    by (auto simp add: makedirs_def Let_def split: if_splits)
  from assms(2,3) have ne: "take n ?p \<noteq> []" by auto
  from assms(2,3) have mem: "take n ?p \<in> set (map (\<lambda>n. take n ?p) [1..<Suc (length ?p)])"
    by auto
  show ?thesis
  proof (cases "is_dir fs (take n ?p)")
    case True
    with ne have "take n ?p \<in> set (dirs fs)" by (simp add: is_dir_def)
    with d show ?thesis by simp
  next
    case False
    with mem d show ?thesis by simp
  qed
qed

lemma keeps_refl: "keeps fs fs"
  by (simp add: keeps_def)

lemma keeps_trans: "keeps a b \<Longrightarrow> keeps b c \<Longrightarrow> keeps a c"
  by (simp add: keeps_def)

lemma map_of_dict_set: "map_of (dict_set d k v) k' = (if k' = k then Some v else map_of d k')"
  by (induction d k v rule: dict_set.induct) auto

lemma map_of_filter_neq: "k' \<noteq> p \<Longrightarrow> map_of (filter (\<lambda>f. fst f \<noteq> p) d) k' = map_of d k'"
  by (induction d) auto

lemma map_of_filter_None: "map_of d k = None \<Longrightarrow> map_of (filter P d) k = None"
  by (induction d) auto

lemma write_file_keeps: "write_file fs s c = Inr fs' \<Longrightarrow> keeps fs fs'"
  by (auto simp add: write_file_def keeps_def Let_def is_file_def is_dir_def map_of_dict_set
      split: if_splits)

lemma is_file_filter: "is_file (fs\<lparr>files := filter P (files fs)\<rparr>) p \<Longrightarrow> is_file fs p"
  by (cases "map_of (files fs) p") (auto simp add: is_file_def map_of_filter_None)

lemma remove_file_keeps: "remove_file fs s = Inr fs' \<Longrightarrow> keeps fs fs'"
  by (auto simp add: remove_file_def keeps_def Let_def split: if_splits dest: is_file_filter)

lemma to_csv_keeps: "to_csv fs s df = Inr fs' \<Longrightarrow> keeps fs fs'"
  by (simp add: to_csv_def write_file_keeps)

lemma save_json_keeps: "save_json fs s e = (r, fs') \<Longrightarrow> keeps fs fs'"
  by (auto simp add: save_json_def keeps_refl split: sum.splits
      intro: write_file_keeps keeps_trans [OF write_file_keeps remove_file_keeps])

lemma save_nested_keeps: "save_nested fs s d = (r, fs') \<Longrightarrow> keeps fs fs'"
proof (induction fs s d arbitrary: r fs' rule: save_nested.induct)
  case (1 fs prefix)
  then show ?case by (simp add: keeps_refl)
next
  case (2 fs prefix k o' rest)
  show ?case
  proof (cases o')
    case (Val v)
    with "2.prems" have "save_nested fs prefix rest = (r, fs')" by simp
    from "2.IH"(1) [OF Val this] show ?thesis .
  next
    case (Frame df)
    show ?thesis
    proof (cases "to_csv fs (prefix @ ''_'' @ k @ ''.csv'') df")
      case (Inl e)
      with "2.prems" Frame show ?thesis by (simp add: keeps_refl)
    next
      case (Inr fs1)
      with "2.prems" Frame have "save_nested fs1 prefix rest = (r, fs')" by simp
      from "2.IH"(2) [OF Frame Inr this] to_csv_keeps [OF Inr] show ?thesis
        by (rule keeps_trans [rotated])
    qed
  next
    case (Dict d)
    show ?thesis
    proof (cases "json_entry o'")
      case (Inl err)
      with "2.prems" Dict show ?thesis
        by (auto simp add: keeps_refl split: sum.splits intro: write_file_keeps)
    next
      case (Inr doc)
      show ?thesis
      proof (cases "write_file fs (prefix @ ''_'' @ k @ ''.json'') (JsonText doc)")
        case (Inl e)
        with "2.prems" Dict Inr show ?thesis by (simp add: keeps_refl)
      next
        case fs1: (Inr fs1)
        with "2.prems" Dict Inr have "save_nested fs1 prefix rest = (r, fs')" by simp
        from "2.IH"(3) [OF Dict Inr fs1 this] write_file_keeps [OF fs1] show ?thesis
          by (rule keeps_trans [rotated])
      qed
    qed
  next
    case (DataDict d)
    show ?thesis
    proof (cases "json_entry o'")
      case (Inl err)
      with "2.prems" DataDict show ?thesis
        by (auto simp add: keeps_refl split: sum.splits intro: write_file_keeps)
    next
      case (Inr doc)
      show ?thesis
      proof (cases "write_file fs (prefix @ ''_'' @ k @ ''.json'') (JsonText doc)")
        case (Inl e)
        with "2.prems" DataDict Inr show ?thesis by (simp add: keeps_refl)
      next
        case fs1: (Inr fs1)
        with "2.prems" DataDict Inr have "save_nested fs1 prefix rest = (r, fs')" by simp
        from "2.IH"(4) [OF DataDict Inr fs1 this] write_file_keeps [OF fs1] show ?thesis
          by (rule keeps_trans [rotated])
      qed
    qed
  qed
qed

lemma save_entry_keeps: "save_entry fs s e = (r, fs') \<Longrightarrow> keeps fs fs'"
  by (auto simp add: save_entry_def keeps_refl split: entry.splits sum.splits
      intro: save_json_keeps save_nested_keeps keeps_trans [OF to_csv_keeps save_json_keeps])

lemma save_items_keeps: "save_items fs s d = (r, fs') \<Longrightarrow> keeps fs fs'"
proof (induction fs s d arbitrary: r fs' rule: save_items.induct)
  case (1 fs path)
  then show ?case by (simp add: keeps_refl)
next
  case (2 fs path key out rest)
  obtain r1 fs1 where e: "save_entry fs (path @ ''/'' @ key) out = (r1, fs1)"
    by (cases "save_entry fs (path @ ''/'' @ key) out")
  show ?case
  proof (cases r1)
    case None
    with "2.prems" e have "save_items fs1 path rest = (r, fs')" by simp
    from "2.IH" [OF e [symmetric] None this] save_entry_keeps [OF e] show ?thesis
      by (rule keeps_trans [rotated])
  next
    case (Some err)
    with "2.prems" e have "fs' = fs1" by simp
    with save_entry_keeps [OF e] show ?thesis by simp
  qed
qed

text \<open>
  C7: when \<^verbatim>\<open>save\<close> with an explicit name, id and base path has returned, a second
  \<^verbatim>\<open>save\<close> with the same name, id and path (of any store) raises \<^verbatim>\<open>FileExistsError\<close>
  and leaves the file system as the first call left it. (The base path is not the
  empty string, on which \<^verbatim>\<open>makedirs\<close> fails.)
\<close>

theorem save_twice_collides:
  assumes "path \<noteq> []"
    and "save fs self (Some exp_name) (Some exp_id) path = (None, fs1)"
  shows "save fs1 self' (Some exp_name) (Some exp_id) path = (Some FileExistsError, fs1)"
proof -
  define target where
    "target = path @ ''/'' @ replace_str '' '' ''_'' exp_name @ ''_'' @ str_int exp_id"
  from assms(2) obtain fsA fs2 where
    A: "ensure_output_dir fs path = Inr fsA" and
    B: "makedirs fsA target = Inr fs2" and
    C: "save_items fs2 target self = (None, fs1)"
    by (auto simp add: save_def save_name_def save_id_def target_def split: sum.splits)
  have q: "resolve target = resolve path @ resolve (replace_str '' '' ''_'' exp_name @ ''_'' @ str_int exp_id)"
    by (simp add: target_def resolve_append)
  from save_items_keeps [OF C] have k: "keeps fs2 fs1" .
  from A have nf: "\<not> is_file fs []"
    by (auto simp add: ensure_output_dir_def listdir_def resolve_dot Let_def split: if_splits)
  from A have "files fsA = files fs"
    by (auto simp add: ensure_output_dir_def makedirs_files split: sum.splits if_splits)
  with makedirs_files [OF B] nf have "\<not> is_file fs2 []" by (simp add: is_file_def)
  with k have nf1: "\<not> is_file fs1 []" by (simp add: keeps_def)
  have dq: "is_dir fs1 (resolve target)"
  proof (cases "resolve target = []")
    case True
    then show ?thesis by (simp add: is_dir_def)
  next
    case False
    with makedirs_creates [OF B, of "length (resolve target)"] k show ?thesis
      by (simp add: is_dir_def keeps_def)
  qed
  have dp: "is_dir fs1 (resolve path)"
  proof (cases "resolve path = []")
    case True
    then show ?thesis by (simp add: is_dir_def)
  next
    case False
    with makedirs_creates [OF B, of "length (resolve path)"] k q show ?thesis
      by (simp add: is_dir_def keeps_def)
  qed
  have t: "target \<noteq> []" by (simp add: target_def)
  from nf1 obtain names where l: "listdir fs1 ''.'' = Inr names"
    by (simp add: listdir_def resolve_dot Let_def is_dir_def)
  from dq t have m: "makedirs fs1 target = Inl FileExistsError"
    by (simp add: makedirs_def)
  from dp assms(1) have mp: "makedirs fs1 path = Inl FileExistsError"
    by (simp add: makedirs_def)
  show ?thesis
    using l m mp
    by (simp add: save_def ensure_output_dir_def save_name_def save_id_def target_def)
qed

theorem save_twice_collides_witness:
  "save fs_empty two_category_store (Some ''my exp'') (Some 1) ''ap_output'' = (None, saved_once)
   \<and> save saved_once [] (Some ''my exp'') (Some 1) ''ap_output''
       = (Some FileExistsError, saved_once)"
proof -
  have h: "save fs_empty two_category_store (Some ''my exp'') (Some 1) ''ap_output''
             = (None, saved_once)"
    by code_simp
  have p: "''ap_output'' \<noteq> []" by simp
  from save_twice_collides [OF p h, of "[]"] h show ?thesis by simp
qed

subsection \<open>No parameter data (C9)\<close>

lemma iterations_gt_1: "iterations self = Inr (Some n) \<Longrightarrow> 1 < n"
  by (auto simp add: iterations_def split: sum.splits bool.splits entry.splits pyval.splits if_splits)

lemma after_selection:
  assumes "map_of self ''parameters'' = Some ps" and "select_pars ps varied fixed = Inr (Some dfp)"
    and "shape dfp \<noteq> (0, 0)"
  shows "combine_pars self varied fixed = returned_runs self dfp"
proof (cases "iterations self")
  case (Inl e)
  with assms show ?thesis by (simp add: combine_pars_def returned_runs_def)
next
  case (Inr its)
  show ?thesis
  proof (cases its)
    case None
    with Inr assms show ?thesis
      by (simp add: combine_pars_def returned_runs_def run_table_def reset_index_drop_def)
  next
    case (Some n)
    with Inr have "1 < n" by (simp add: iterations_gt_1)
    then have "0 < nat n" by simp
    from concat_frames_replicate [OF this]
    obtain ns where cf: "concat_frames (replicate (nat n) dfp)
        = Inr \<lparr>index_names = ns, columns = columns dfp, rows = concat (replicate (nat n) (rows dfp))\<rparr>"
      by blast
    with Inr Some assms show ?thesis
      by (simp add: combine_pars_def returned_runs_def run_table_def reset_index_drop_def)
  qed
qed

lemma set_col_cells_columns:
  "k \<in> set (columns (set_col_cells df k cs)) \<and> set (columns df) \<subseteq> set (columns (set_col_cells df k cs))"
  by (auto simp add: set_col_cells_def)

lemma assign_series_columns:
  "assign_series df k names ser = Inr df' \<Longrightarrow> k \<in> set (columns df') \<and> set (columns df) \<subseteq> set (columns df')"
  using set_col_cells_columns [of k _ _]
  by (auto simp add: assign_series_def set_col_cells_def split: if_splits)

lemma assign_param_columns:
  "assign_param df k v = Inr df' \<Longrightarrow> k \<in> set (columns df') \<and> set (columns df) \<subseteq> set (columns df')"
  by (auto simp add: assign_param_def set_col_def set_col_cells_def
      split: entry.splits pyval.splits if_splits dest: assign_series_columns)

lemma assign_params_columns:
  "assign_params df d = Inr df' \<Longrightarrow> set (columns df) \<subseteq> set (columns df') \<and> (d \<noteq> [] \<longrightarrow> columns df' \<noteq> [])"
proof (induction d arbitrary: df)
  case Nil
  then show ?case by simp
next
  case (Cons kv d)
  from Cons.prems obtain df1 where a: "assign_param df (fst kv) (snd kv) = Inr df1"
    and r: "assign_params df1 d = Inr df'"
    by (auto split: sum.splits)
  from assign_param_columns [OF a] Cons.IH [OF r] show ?case by auto
qed

lemma shape_after_params:
  assumes "assign_params df d = Inr df'"
  shows "shape df' = (0, 0) \<longleftrightarrow> shape df = (0, 0) \<and> d = []"
proof (cases "d = []")
  case True
  with assms show ?thesis by simp
next
  case False
  with assign_params_columns [OF assms] show ?thesis by (simp add: shape_def)
qed

text \<open>
  C9 reads: \<^verbatim>\<open>_combine_pars\<close> returns \<^verbatim>\<open>None\<close> whenever the assembled table is empty or
  has zero rows or zero columns. The test of line 196 is \<^verbatim>\<open>dfp.shape == (0, 0)\<close>. For a
  store with a parameters entry and both flags, whatever the log:

  \<^item> a table of varied parameters gives \<^verbatim>\<open>None\<close> exactly when \<^verbatim>\<open>varied\<close> is false or the
    table has neither a row nor a column;
  \<^item> a plain mapping gives \<^verbatim>\<open>None\<close> exactly when \<^verbatim>\<open>fixed\<close> is false or the mapping is
    empty;
  \<^item> a nested \<^verbatim>\<open>DataDict\<close> with a table \<^verbatim>\<open>varied\<close> and a mapping \<^verbatim>\<open>fixed\<close>, when the
    assignments of the fixed parameters do not raise, gives \<^verbatim>\<open>None\<close> exactly when the
    varied table is left out or has neither a row nor a column, and the fixed mapping
    is left out or empty.

  In every other of these cases the assembled table, also one without a row or
  without a column, is returned as the table of the runs: with its columns, its rows
  (\<open>n\<close> times over for \<open>n > 1\<close> iterations) and the index \<^verbatim>\<open>run_id\<close>; or the test of the
  iterations raises.
\<close>

theorem combine_pars_no_data:
  assumes "map_of self ''parameters'' = Some ps"
  shows "(\<forall>V. ps = Frame V \<longrightarrow>
            combine_pars self varied fixed
              = (if varied \<and> shape V \<noteq> (0, 0) then returned_runs self V else Inr None))
       \<and> (\<forall>F. ps = Dict F \<longrightarrow>
            combine_pars self varied fixed
              = (if fixed \<and> F \<noteq> [] then returned_runs self (one_row_frame F) else Inr None))
       \<and> (\<forall>d V F. ps = DataDict d \<and> map_of d ''varied'' = Some (Frame V)
                    \<and> map_of d ''fixed'' = Some (Dict F) \<longrightarrow>
            combine_pars self varied fixed
              = (case assign_params (if varied then V else empty_frame) (if fixed then F else []) of
                   Inl e \<Rightarrow> Inl e
                 | Inr dfp \<Rightarrow> if (varied \<and> shape V \<noteq> (0, 0)) \<or> (fixed \<and> F \<noteq> [])
                              then returned_runs self dfp else Inr None))"
proof (intro conjI allI impI)
  fix V assume ps: "ps = Frame V"
  show "combine_pars self varied fixed
          = (if varied \<and> shape V \<noteq> (0, 0) then returned_runs self V else Inr None)"
  proof (cases "varied \<and> shape V \<noteq> (0, 0)")
    case True
    with ps have "select_pars ps varied fixed = Inr (Some V)" by (simp add: select_pars_def)
    from after_selection [OF assms this] True show ?thesis by simp
  next
    case False
    with assms ps show ?thesis by (auto simp add: combine_pars_def select_pars_def)
  qed
next
  fix F assume ps: "ps = Dict F"
  show "combine_pars self varied fixed
          = (if fixed \<and> F \<noteq> [] then returned_runs self (one_row_frame F) else Inr None)"
  proof (cases "fixed \<and> F \<noteq> []")
    case True
    with ps have s: "select_pars ps varied fixed = Inr (Some (one_row_frame F))"
      by (simp add: select_pars_def)
    from True have "shape (one_row_frame F) \<noteq> (0, 0)" by (simp add: one_row_frame_def shape_def)
    from after_selection [OF assms s this] True show ?thesis by simp
  next
    case False
    with assms ps show ?thesis
      by (auto simp add: combine_pars_def select_pars_def one_row_frame_def empty_frame_def shape_def)
  qed
next
  fix d V F
  assume "ps = DataDict d \<and> map_of d ''varied'' = Some (Frame V) \<and> map_of d ''fixed'' = Some (Dict F)"
  then have ps: "ps = DataDict d" and v: "map_of d ''varied'' = Some (Frame V)"
    and f: "map_of d ''fixed'' = Some (Dict F)" by simp_all
  let ?base = "if varied then V else empty_frame"
  let ?items = "if fixed then F else []"
  have s: "select_pars ps varied fixed = map_sum id Some (assign_params ?base ?items)"
    using v f by (simp add: ps select_pars_def getattr_def fixed_items_def)
  show "combine_pars self varied fixed
          = (case assign_params ?base ?items of
               Inl e \<Rightarrow> Inl e
             | Inr dfp \<Rightarrow> if (varied \<and> shape V \<noteq> (0, 0)) \<or> (fixed \<and> F \<noteq> [])
                          then returned_runs self dfp else Inr None)"
  proof (cases "assign_params ?base ?items")
    case (Inl e)
    with s assms show ?thesis by (simp add: combine_pars_def)
  next
    case (Inr dfp)
    with s have s': "select_pars ps varied fixed = Inr (Some dfp)" by simp
    have e: "shape empty_frame = (0, 0)" by (simp add: empty_frame_def shape_def)
    from shape_after_params [OF Inr] e
    have sh: "shape dfp = (0, 0) \<longleftrightarrow> \<not> ((varied \<and> shape V \<noteq> (0, 0)) \<or> (fixed \<and> F \<noteq> []))"
      by (auto split: if_splits)
    show ?thesis
    proof (cases "shape dfp = (0, 0)")
      case True
      with sh s' assms Inr show ?thesis by (auto simp add: combine_pars_def)
    next
      case False
      from after_selection [OF assms s' False] sh False Inr show ?thesis by simp
    qed
  qed
qed

text \<open>
  The theorem on the store with both kinds of parameters and two iterations: nothing
  selected gives \<^verbatim>\<open>None\<close>; the varied table of two columns and no row with the fixed
  parameter, and the fixed parameter alone, give tables without a row.
\<close>

theorem combine_pars_no_data_witness:
  "combine_pars both_store False False = Inr None
   \<and> combine_pars both_store True True
       = Inr (Some \<lparr>index_names = [Some ''run_id''], columns = [''a'', ''b'', ''c''], rows = []\<rparr>)
   \<and> combine_pars both_store False True
       = Inr (Some \<lparr>index_names = [Some ''run_id''], columns = [''c''], rows = []\<rparr>)"
proof -
  have p: "map_of both_store ''parameters''
      = Some (DataDict [(''varied'', Frame no_rows_table), (''fixed'', Dict [(''c'', Val (PInt 5))])])"
    by (simp add: both_store_def)
  have i: "iterations both_store = Inr (Some 2)" by code_simp
  have s: "shape no_rows_table = (0, 2)" by code_simp
  have a: "assign_params no_rows_table [(''c'', Val (PInt 5))]
      = Inr \<lparr>index_names = [Some ''sample_id''], columns = [''a'', ''b'', ''c''], rows = []\<rparr>"
    by code_simp
  have b: "assign_params empty_frame [(''c'', Val (PInt 5))]
      = Inr \<lparr>index_names = [None], columns = [''c''], rows = []\<rparr>"
    by code_simp
  have c: "assign_params empty_frame [] = Inr empty_frame" by simp
  from combine_pars_no_data [OF p, of False False] combine_pars_no_data [OF p, of True True]
    combine_pars_no_data [OF p, of False True]
  show ?thesis
    by (simp del: assign_params.simps
        add: i s a b c returned_runs_def run_table_def range_rows_def)
qed

text \<open>
  C9 as stated fails on a table of two columns and no row, and on a table of two rows
  and no column: each is returned as a table.
\<close>

theorem combine_pars_returns_table_without_rows:
  "shape no_rows_table = (0, 2)
   \<and> combine_pars no_rows_store True True
       = Inr (Some \<lparr>index_names = [Some ''run_id''], columns = [''a'', ''b''], rows = []\<rparr>)
   \<and> shape no_columns_table = (2, 0)
   \<and> combine_pars [(''log'', Dict []), (''parameters'', Frame no_columns_table)] True True
       = Inr (Some \<lparr>index_names = [Some ''run_id''], columns = [],
                     rows = [([Cell (PInt 0)], []), ([Cell (PInt 1)], [])]\<rparr>)"
  by code_simp

subsection \<open>Several categories of variables (C4)\<close>






















lemma frames_of_mem:
  "frames_of d = Inr fs \<Longrightarrow> kd \<in> set fs \<Longrightarrow> (fst kd, Frame (snd kd)) \<in> set d"
proof (induction d arbitrary: fs)
  case Nil
  then show ?case by simp
next
  case (Cons kv d)
  show ?case
  proof (cases "snd kv")
    case (Frame t)
    with Cons.prems(1) obtain fs' where f: "frames_of d = Inr fs'" and fs: "fs = (fst kv, t) # fs'"
      by (auto split: sum.splits)
    show ?thesis
    proof (cases "kd = (fst kv, t)")
      case True
      with Frame show ?thesis by (cases kv) simp
    next
      case False
      with Cons.prems(2) fs have "kd \<in> set fs'" by simp
      from Cons.IH [OF f this] show ?thesis by simp
    qed
  next
    case (Val v)
    with Cons.prems(1) have f: "frames_of d = Inr fs"
      by (auto split: pyval.splits)
    from Cons.IH [OF f Cons.prems(2)] show ?thesis by simp
  next
    case (Dict x)
    with Cons.prems show ?thesis by simp
  next
    case (DataDict x)
    with Cons.prems show ?thesis by simp
  qed
qed

lemma agree_same: "map (\<lambda>(a, b). if a = b then a else None) (zip ns ns) = ns"
  by (induction ns) simp_all

lemma unanimous_names_same:
  assumes "dfs \<noteq> []" and "list_all (\<lambda>d. index_names d = ns) dfs"
  shows "unanimous_names dfs = ns"
proof -
  have fold: "list_all (\<lambda>d. index_names d = ns) ds \<Longrightarrow>
      foldl (\<lambda>ns e. map (\<lambda>(a, b). if a = b then a else None) (zip ns (index_names e))) ns ds = ns"
    for ds
    by (induction ds) (simp_all add: agree_same)
  from assms(1) obtain d ds where dfs: "dfs = d # ds" by (cases dfs) auto
  with assms(2) have "index_names d = ns" and "list_all (\<lambda>d. index_names d = ns) ds"
    by simp_all
  with fold [of ds] show ?thesis by (simp add: dfs unanimous_names_def)
qed











subsection \<open>Files that do not parse (C10)\<close>

lemma load_files_append:
  "load_files reader fs path self (a @ b)
     = (case load_files reader fs path self a of
          Inl e \<Rightarrow> Inl e | Inr s \<Rightarrow> load_files reader fs path s b)"
  by (induction a arbitrary: self) (auto split: sum.splits)

lemma load_step_target:
  "load_step reader fs path self file
     = (case target_of file of
          TopKey k \<Rightarrow> Inr (dict_set self k (load_file reader fs path file))
        | NestedKey c k \<Rightarrow> nested_set self c k (load_file reader fs path file))"
  by (simp add: load_step_def target_of_def)

lemma map_sum_eq_Inr: "map_sum f g x = Inr y \<longleftrightarrow> (\<exists>z. x = Inr z \<and> y = g z)"
  by (cases x) auto

lemma nested_set_other:
  "nested_set self c j v = Inr s' \<Longrightarrow> c \<noteq> k \<Longrightarrow> map_of s' k = map_of self k"
  by (auto simp add: nested_set_def map_of_dict_set map_sum_eq_Inr
      split: option.splits entry.splits)

lemma nested_set_mapping:
  assumes "mapping_or_free self c"
  shows "\<exists>s'. nested_set self c k v = Inr s' \<and> target_value s' (NestedKey c k) = Some v
           \<and> mapping_or_free s' c"
proof (cases "map_of self c")
  case None
  then show ?thesis
    by (simp add: nested_set_def mapping_or_free_def target_value_def map_of_dict_set)
next
  case (Some x)
  with assms show ?thesis
    by (cases x)
      (simp_all add: nested_set_def mapping_or_free_def target_value_def map_of_dict_set)
qed

lemma nested_set_keeps:
  assumes "nested_set self c j w = Inr s'" and "target_value self (NestedKey c k) = Some v"
    and "j \<noteq> k"
  shows "target_value s' (NestedKey c k) = Some v"
  using assms
  by (auto simp add: nested_set_def target_value_def map_of_dict_set map_sum_eq_Inr
      split: option.splits entry.splits)

lemma load_step_keeps:
  assumes "load_step reader fs path s f = Inr s'" and "target_value s t = Some v"
    and "\<not> disturbs (target_of f) t"
  shows "target_value s' t = Some v"
proof (cases t)
  case (TopKey k)
  with assms(3) have n: "top_key (target_of f) \<noteq> k" by (simp add: disturbs_def)
  have "map_of s' k = map_of s k"
  proof (cases "target_of f")
    case (TopKey j)
    with n assms(1) show ?thesis by (auto simp add: load_step_target top_key_def map_of_dict_set)
  next
    case (NestedKey c j)
    with n assms(1) show ?thesis
      by (auto simp add: load_step_target top_key_def dest: nested_set_other)
  qed
  with assms(2) TopKey show ?thesis by (simp add: target_value_def)
next
  case (NestedKey c k)
  with assms(3) have n1: "target_of f \<noteq> TopKey c" and n2: "target_of f \<noteq> NestedKey c k"
    by (simp_all add: disturbs_def)
  show ?thesis
  proof (cases "target_of f")
    case (TopKey j)
    with n1 have "j \<noteq> c" by simp
    with TopKey assms(1) have "map_of s' c = map_of s c"
      by (auto simp add: load_step_target map_of_dict_set)
    with assms(2) NestedKey show ?thesis by (simp add: target_value_def)
  next
    case f: (NestedKey c' j)
    show ?thesis
    proof (cases "c' = c")
      case True
      with f n2 have "j \<noteq> k" by simp
      with f True assms(1,2) NestedKey show ?thesis
        by (auto simp add: load_step_target intro: nested_set_keeps)
    next
      case False
      with f assms(1) have "map_of s' c = map_of s c"
        by (auto simp add: load_step_target dest: nested_set_other)
      with assms(2) NestedKey show ?thesis by (simp add: target_value_def)
    qed
  qed
qed

lemma load_files_keeps:
  "load_files reader fs path s fl = Inr R \<Longrightarrow> target_value s t = Some v
     \<Longrightarrow> list_all (\<lambda>f. \<not> disturbs (target_of f) t) fl \<Longrightarrow> target_value R t = Some v"
proof (induction fl arbitrary: s)
  case Nil
  then show ?case by simp
next
  case (Cons f fl)
  from Cons.prems(1) obtain s' where s: "load_step reader fs path s f = Inr s'"
    and r: "load_files reader fs path s' fl = Inr R"
    by (auto split: sum.splits)
  from Cons.prems(3) have f: "\<not> disturbs (target_of f) t"
    and fl: "list_all (\<lambda>f. \<not> disturbs (target_of f) t) fl" by simp_all
  from Cons.IH [OF r load_step_keeps [OF s Cons.prems(2) f] fl] show ?case .
qed

lemma load_step_free:
  assumes inv: "\<forall>c. c \<notin> set B \<longrightarrow> mapping_or_free s c"
    and free: "containers_free reader fs path B (f # fl)"
  shows "\<exists>s' B'. load_step reader fs path s f = Inr s'
           \<and> target_value s' (target_of f) = Some (load_file reader fs path f)
           \<and> (\<forall>c. c \<notin> set B' \<longrightarrow> mapping_or_free s' c)
           \<and> containers_free reader fs path B' fl"
proof (cases "target_of f")
  case (TopKey k)
  let ?v = "load_file reader fs path f"
  let ?B = "if loads_mapping reader fs path f then removeAll k B else k # B"
  from TopKey free have fr: "containers_free reader fs path ?B fl" by simp
  have st: "load_step reader fs path s f = Inr (dict_set s k ?v)"
    by (simp add: load_step_target TopKey)
  have tv: "target_value (dict_set s k ?v) (TopKey k) = Some ?v"
    by (simp add: target_value_def map_of_dict_set)
  have "\<forall>c. c \<notin> set ?B \<longrightarrow> mapping_or_free (dict_set s k ?v) c"
    using inv
    by (auto simp add: mapping_or_free_def map_of_dict_set loads_mapping_def
        split: entry.splits if_splits)
  then have "load_step reader fs path s f = Inr (dict_set s k ?v)
      \<and> target_value (dict_set s k ?v) (target_of f) = Some (load_file reader fs path f)
      \<and> (\<forall>c. c \<notin> set ?B \<longrightarrow> mapping_or_free (dict_set s k ?v) c)
      \<and> containers_free reader fs path ?B fl"
    using st tv fr TopKey by simp
  then show ?thesis by (intro exI)
next
  case (NestedKey c k)
  with free have c: "c \<notin> set B" and fr: "containers_free reader fs path B fl" by simp_all
  from inv c have "mapping_or_free s c" by simp
  from nested_set_mapping [OF this, of k "load_file reader fs path f"] obtain s' where
    n: "nested_set s c k (load_file reader fs path f) = Inr s'"
    and tv: "target_value s' (NestedKey c k) = Some (load_file reader fs path f)"
    and m: "mapping_or_free s' c" by blast
  have "\<forall>c'. c' \<notin> set B \<longrightarrow> mapping_or_free s' c'"
  proof (intro allI impI)
    fix c' assume c': "c' \<notin> set B"
    show "mapping_or_free s' c'"
    proof (cases "c' = c")
      case True
      with m show ?thesis by simp
    next
      case False
      with nested_set_other [OF n, of c'] inv c' show ?thesis
        by (simp add: mapping_or_free_def)
    qed
  qed
  with n tv fr NestedKey show ?thesis by (auto simp add: load_step_target)
qed

lemma load_files_values:
  assumes "\<forall>c. c \<notin> set B \<longrightarrow> mapping_or_free s c"
    and "containers_free reader fs path B fl"
  shows "\<exists>R. load_files reader fs path s fl = Inr R
           \<and> (\<forall>pre g post. fl = pre @ g # post
                  \<and> list_all (\<lambda>f. \<not> disturbs (target_of f) (target_of g)) post
                \<longrightarrow> target_value R (target_of g) = Some (load_file reader fs path g))"
  using assms
proof (induction fl arbitrary: s B)
  case Nil
  then show ?case by simp
next
  case (Cons f fl)
  from load_step_free [OF Cons.prems] obtain s' B' where
    st: "load_step reader fs path s f = Inr s'"
    and tv: "target_value s' (target_of f) = Some (load_file reader fs path f)"
    and inv: "\<forall>c. c \<notin> set B' \<longrightarrow> mapping_or_free s' c"
    and fr: "containers_free reader fs path B' fl" by blast
  from Cons.IH [OF inv fr] obtain R where
    R: "load_files reader fs path s' fl = Inr R"
    and vals: "\<forall>pre g post. fl = pre @ g # post
                  \<and> list_all (\<lambda>f. \<not> disturbs (target_of f) (target_of g)) post
                \<longrightarrow> target_value R (target_of g) = Some (load_file reader fs path g)"
    by blast
  have "target_value R (target_of g) = Some (load_file reader fs path g)"
    if sp: "f # fl = pre @ g # post"
      and nd: "list_all (\<lambda>f. \<not> disturbs (target_of f) (target_of g)) post" for pre g post
  proof (cases pre)
    case Nil
    with sp have g: "g = f" and p: "post = fl" by simp_all
    from load_files_keeps [OF R] tv nd show ?thesis by (simp add: g p)
  next
    case (Cons a pre')
    with sp have "fl = pre' @ g # post" by simp
    with vals nd show ?thesis by blast
  qed
  with st R show ?case by auto
qed

text \<open>
  C10, amended. Let the files of a directory be loaded in the order \<open>fl\<close> of a listing,
  into an empty store, and let no file that goes into the nested \<^verbatim>\<open>DataDict\<close> under
  \<^verbatim>\<open>variables\<close> or \<^verbatim>\<open>parameters\<close> find a value there that is no mapping
  (\<open>containers_free\<close>). Then the loop returns a store, whatever fails to parse, and every
  file of the listing is processed: the store holds at the key of each file \<open>g\<close>
  what \<^verbatim>\<open>load_file\<close> returns for \<open>g\<close>, unless a later file of the listing is loaded into
  the same key or over its nested \<^verbatim>\<open>DataDict\<close>. For a file whose parsing raises, also one
  with an unsupported extension, that is the value \<^verbatim>\<open>None\<close>.
\<close>

theorem failed_file_is_None:
  assumes fail: "parse_file reader fs path file = Inl e"
    and free: "containers_free reader fs path [] fl"
  shows "\<exists>R. load_files reader fs path [] fl = Inr R
           \<and> (\<forall>pre g post. fl = pre @ g # post
                  \<and> list_all (\<lambda>f. \<not> disturbs (target_of f) (target_of g)) post
                \<longrightarrow> target_value R (target_of g) = Some (load_file reader fs path g))
           \<and> (\<forall>pre post. fl = pre @ file # post
                  \<and> list_all (\<lambda>f. \<not> disturbs (target_of f) (target_of file)) post
                \<longrightarrow> target_value R (target_of file) = Some (Val PNone))"
proof -
  have "\<forall>c. c \<notin> set [] \<longrightarrow> mapping_or_free [] c" by (simp add: mapping_or_free_def)
  from load_files_values [OF this free] obtain R where
    R: "load_files reader fs path [] fl = Inr R"
    and vals: "\<forall>pre g post. fl = pre @ g # post
                  \<and> list_all (\<lambda>f. \<not> disturbs (target_of f) (target_of g)) post
                \<longrightarrow> target_value R (target_of g) = Some (load_file reader fs path g)"
    by blast
  from fail have "load_file reader fs path file = Val PNone" by (simp add: load_file_def)
  with vals have "\<forall>pre post. fl = pre @ file # post
                  \<and> list_all (\<lambda>f. \<not> disturbs (target_of f) (target_of file)) post
                \<longrightarrow> target_value R (target_of file) = Some (Val PNone)"
    by metis
  with R vals show ?thesis by blast
qed

text \<open>
  The theorem on a directory with a file of variables that does not parse, between a
  log that does and a foreign file: the log is loaded, the variables hold \<^verbatim>\<open>None\<close> for
  the category of the failing file.
\<close>

theorem failed_file_is_None_witness:
  "parse_file as_printed bad_file_dir ''out/e_1/'' ''variables_Agent.xml'' = Inl ValueError
   \<and> load_files as_printed bad_file_dir ''out/e_1/'' []
         [''log.json'', ''variables_Agent.xml'', ''notes.txt'']
       = Inr [(''log'', Val (PInt 1)), (''variables'', DataDict [(''Agent'', Val PNone)]),
              (''notes'', Val PNone)]
   \<and> target_value [(''log'', Val (PInt 1)), (''variables'', DataDict [(''Agent'', Val PNone)]),
                    (''notes'', Val PNone)] (target_of ''variables_Agent.xml'')
       = Some (Val PNone)
   \<and> target_value [(''log'', Val (PInt 1)), (''variables'', DataDict [(''Agent'', Val PNone)]),
                    (''notes'', Val PNone)] (target_of ''log.json'')
       = Some (load_file as_printed bad_file_dir ''out/e_1/'' ''log.json'')
   \<and> load_file as_printed bad_file_dir ''out/e_1/'' ''log.json'' = Val (PInt 1)"
proof -
  let ?fl = "[''log.json'', ''variables_Agent.xml'', ''notes.txt'']"
  let ?R = "[(''log'', Val (PInt 1)), (''variables'', DataDict [(''Agent'', Val PNone)]),
             (''notes'', Val PNone)]"
  have f: "parse_file as_printed bad_file_dir ''out/e_1/'' ''variables_Agent.xml'' = Inl ValueError"
    by code_simp
  have c: "containers_free as_printed bad_file_dir ''out/e_1/'' [] ?fl"
    by code_simp
  have l: "load_files as_printed bad_file_dir ''out/e_1/'' [] ?fl = Inr ?R"
    by code_simp
  have v: "load_file as_printed bad_file_dir ''out/e_1/'' ''log.json'' = Val (PInt 1)"
    by code_simp
  have n1: "list_all (\<lambda>f. \<not> disturbs (target_of f) (target_of ''variables_Agent.xml'')) [''notes.txt'']"
    by code_simp
  have n2: "list_all (\<lambda>f. \<not> disturbs (target_of f) (target_of ''log.json''))
              [''variables_Agent.xml'', ''notes.txt'']"
    by code_simp
  from failed_file_is_None [OF f c] obtain R where
    r: "load_files as_printed bad_file_dir ''out/e_1/'' [] ?fl = Inr R"
    and a: "\<forall>pre g post. ?fl = pre @ g # post
          \<and> list_all (\<lambda>f. \<not> disturbs (target_of f) (target_of g)) post
        \<longrightarrow> target_value R (target_of g) = Some (load_file as_printed bad_file_dir ''out/e_1/'' g)"
    and b: "\<forall>pre post. ?fl = pre @ ''variables_Agent.xml'' # post
          \<and> list_all (\<lambda>f. \<not> disturbs (target_of f) (target_of ''variables_Agent.xml'')) post
        \<longrightarrow> target_value R (target_of ''variables_Agent.xml'') = Some (Val PNone)"
    by blast
  from r l have R: "R = ?R" by (simp only: sum.inject)
  from b [rule_format, of "[''log.json'']" "[''notes.txt'']"] n1
  have 1: "target_value ?R (target_of ''variables_Agent.xml'') = Some (Val PNone)"
    unfolding R by simp
  from a [rule_format, of "[]" "''log.json''" "[''variables_Agent.xml'', ''notes.txt'']"] n2
  have 2: "target_value ?R (target_of ''log.json'')
             = Some (load_file as_printed bad_file_dir ''out/e_1/'' ''log.json'')"
    unfolding R by simp
  from f l 1 2 v show ?thesis by (simp only: simp_thms)
qed

text \<open>
  C10 as stated, for every directory, fails where the variables were saved as a
  number and a file of variables does not parse, in either order of the two files.
  When \<^verbatim>\<open>variables.json\<close> is listed first, line 442 assigns an item to the number 5 and
  \<^verbatim>\<open>load\<close> raises \<^verbatim>\<open>TypeError\<close>: no store is returned. When it is listed last, line 454
  replaces the nested \<^verbatim>\<open>DataDict\<close> that held \<^verbatim>\<open>None\<close> for the failing file: its key is
  not in the returned store.
\<close>

theorem failed_file_aborts_or_is_lost:
  "parse_file as_printed scalar_dir ''out/e_1/'' ''variables_Agent.xml'' = Inl ValueError
   \<and> listdir scalar_dir ''out/e_1/'' = Inr [''variables.json'', ''variables_Agent.xml'']
   \<and> load (\<lambda>p. 0) (\<lambda>names. names) as_printed scalar_dir (Some ''e'') (Some 1) ''out''
       = Inl TypeError
   \<and> load (\<lambda>p. 0) rev as_printed scalar_dir (Some ''e'') (Some 1) ''out''
       = Inr [(''variables'', Val (PInt 5))]"
  by code_simp

end
